theory Spec2Isabelle
  imports Main
begin

section \<open>JavaScript values\<close>

text \<open>
  The service declares the introspection document, the response body and every node of
  both as \<^verbatim>\<open>any\<close>. They are modelled by one untyped value type, as the code reads
  them: a property read, a truthiness test, a strict comparison. Strings are \<^typ>\<open>string\<close>,
  lists of characters that the service concatenates, compares and searches; what depends
  on the characters' encoding or on Unicode's case tables (\<^verbatim>\<open>toLowerCase\<close>, the base64
  form of a \<^verbatim>\<open>Buffer\<close>) is the runtime's and is taken from outside. Numbers are integers,
  of which the code only ever asks whether they are zero. An object is the list of its own
  properties in insertion order, each key once.
\<close>

datatype jsval =
    JUndefined
  | JNull
  | JBool bool
  | JNum int
  | JStr string
  | JArr "jsval list"
  | JObj "(string \<times> jsval) list"

text \<open>\<^verbatim>\<open>if (v)\<close>, \<^verbatim>\<open>!v\<close>, \<^verbatim>\<open>a || b\<close>, \<^verbatim>\<open>a && b\<close>: ToBoolean.\<close>

fun truthy :: "jsval \<Rightarrow> bool" where
  "truthy JUndefined = False"
| "truthy JNull = False"
| "truthy (JBool b) = b"
| "truthy (JNum n) = (n \<noteq> 0)"
| "truthy (JStr s) = (s \<noteq> [])"
| "truthy (JArr xs) = True"
| "truthy (JObj kvs) = True"

text \<open>
  \<^verbatim>\<open>v.k\<close> on a value that is neither null nor undefined, for the property names the
  service reads (none of which a primitive or an array inherits).
\<close>

fun property :: "jsval \<Rightarrow> string \<Rightarrow> jsval" where
  "property (JObj kvs) k = (case map_of kvs k of Some v \<Rightarrow> v | None \<Rightarrow> JUndefined)"
| "property v k = JUndefined"

text \<open>\<^verbatim>\<open>a === b\<close>: by value on primitives, by reference on objects and arrays. Two nodes
  of a parsed document are never the same reference.\<close>

fun strict_eq :: "jsval \<Rightarrow> jsval \<Rightarrow> bool" where
  "strict_eq (JArr xs) b = False"
| "strict_eq (JObj kvs) b = False"
| "strict_eq a b = (a = b)"

text \<open>An optional option field (\<^verbatim>\<open>search?: string\<close>) read as a value.\<close>

fun of_string_opt :: "string option \<Rightarrow> jsval" where
  "of_string_opt None = JUndefined"
| "of_string_opt (Some s) = JStr s"

text \<open>Truthiness of an optional string: absent and empty are both falsy.\<close>

fun truthy_str :: "string option \<Rightarrow> bool" where
  "truthy_str None = False"
| "truthy_str (Some s) = (s \<noteq> [])"

fun truthy_bool :: "bool option \<Rightarrow> bool" where
  "truthy_bool None = False"
| "truthy_bool (Some b) = b"

section \<open>Strings\<close>

definition dquote :: string where
  "dquote = [char_of (34::nat)]"

text \<open>\<^verbatim>\<open>s.startsWith(p)\<close>\<close>

fun startsWith :: "string \<Rightarrow> string \<Rightarrow> bool" where
  "startsWith s [] = True"
| "startsWith [] (p # ps) = False"
| "startsWith (c # cs) (p # ps) = (c = p \<and> startsWith cs ps)"

text \<open>\<^verbatim>\<open>s.includes(t)\<close>: \<open>t\<close> occurs in \<open>s\<close> as a contiguous substring.\<close>

fun str_includes :: "string \<Rightarrow> string \<Rightarrow> bool" where
  "str_includes [] t = (t = [])"
| "str_includes (c # cs) t = (startsWith (c # cs) t \<or> str_includes cs t)"

text \<open>A number in a template string: its decimal digits.\<close>

fun decimal :: "nat \<Rightarrow> string" where
  "decimal n =
     (if n < 10 then [char_of (48 + n)]
      else decimal (n div 10) @ [char_of (48 + n mod 10)])"

declare decimal.simps [simp del]

section \<open>Errors\<close>

text \<open>
  Every failure of the service is a JavaScript \<^verbatim>\<open>Error\<close> with a message. The model keeps
  the place that raised it as the error's kind: a non-2xx status, a GraphQL \<^verbatim>\<open>errors\<close>
  payload, any other fault caught around the request, a lookup that found nothing, and
  the runtime's own TypeError for a read on null or undefined or a call of something
  that is no function.
\<close>

datatype error_kind = TransportError | GraphQLError | FetchFailure | NotFoundError | TypeError

datatype error = Error (kind_of: error_kind) (message: string)

text \<open>What a \<^verbatim>\<open>catch\<close> receives: an instance of \<^verbatim>\<open>Error\<close>, or any other thrown value.\<close>

datatype thrown = ErrorInstance error | NonError

text \<open>The runtime's message for \<^verbatim>\<open>v.k\<close> with \<open>v\<close> null or undefined.\<close>

definition cannot_read :: "jsval \<Rightarrow> string \<Rightarrow> string" where
  "cannot_read v k =
     ''Cannot read properties of '' @ (if v = JNull then ''null'' else ''undefined'')
       @ '' (reading '' @ [CHR 0x27] @ k @ [CHR 0x27] @ '')''"

definition nullish :: "jsval \<Rightarrow> bool" where
  "nullish v = (v = JUndefined \<or> v = JNull)"

text \<open>\<^verbatim>\<open>v.k\<close> in general: a TypeError on null and undefined.\<close>

definition get :: "jsval \<Rightarrow> string \<Rightarrow> error + jsval" where
  "get v k = (if nullish v then Inl (Error TypeError (cannot_read v k)) else Inr (property v k))"

text \<open>Sequencing of steps that may throw.\<close>

fun and_then :: "error + 'a \<Rightarrow> ('a \<Rightarrow> error + 'b) \<Rightarrow> error + 'b" where
  "and_then (Inl e) f = Inl e"
| "and_then (Inr x) f = f x"

section \<open>The service and its cache\<close>

record AuthOptions =
  username :: "string option"
  password :: "string option"
  bearer_token :: "string option"

record BaseOptions = AuthOptions +
  endpoint :: "string option"

record FilterOptions = BaseOptions +
  search :: "string option"
  detailed :: "bool option"

record TypeFilterOptions = FilterOptions +
  kind :: "string option"

record FieldDetailsOptions = BaseOptions +
  field_name :: string
  operation_type :: "string option"

record CacheEntry =
  data :: jsval
  timestamp :: int

record service =
  cache :: "string \<rightharpoonup> CacheEntry"
  CACHE_DURATION :: int
  DEFAULT_ENDPOINT :: string

text \<open>The field initialisers of the class, run once when the process constructs the
  service; \<open>env\<close> is \<^verbatim>\<open>process.env\<close>.\<close>

definition new_service :: "(string \<rightharpoonup> string) \<Rightarrow> service" where
  "new_service env =
     \<lparr> cache = Map.empty,
       CACHE_DURATION = 5 * 60 * 1000,
       DEFAULT_ENDPOINT =
         (if truthy_str (env ''BASE_URL'') then the (env ''BASE_URL'')
          else ''http://localhost:5555/graphql'') \<rparr>"

definition authKey :: "'a AuthOptions_scheme \<Rightarrow> string" where
  "authKey auth =
     (if truthy_str (username auth) then the (username auth)
      else if truthy_str (bearer_token auth) then the (bearer_token auth)
      else ''no-auth'')"

definition getCacheKey :: "string \<Rightarrow> 'a AuthOptions_scheme \<Rightarrow> string" where
  "getCacheKey ep auth = ep @ '':'' @ authKey auth"

definition isValidCache :: "service \<Rightarrow> int \<Rightarrow> CacheEntry \<Rightarrow> bool" where
  "isValidCache svc now entry = (now - timestamp entry < CACHE_DURATION svc)"

section \<open>The network\<close>

record request =
  url :: string
  http_method :: string
  headers :: "(string \<times> string) list"
  body :: string

text \<open>A response: its status line and what \<^verbatim>\<open>response.json()\<close> does, which is to throw
  (an \<^verbatim>\<open>Error\<close> with a message, or \<open>None\<close> for a value that is no \<^verbatim>\<open>Error\<close>) or to
  yield the parsed body.\<close>

record response =
  status :: nat
  statusText :: string
  json :: "string option + jsval"

definition ok :: "response \<Rightarrow> bool" where
  "ok r = (200 \<le> status r \<and> status r < 300)"

datatype fetch_outcome = Rejected "string option" | Responded response

text \<open>
  What the service takes from outside during one call: the runtime and library
  functions it calls (\<^verbatim>\<open>JSON.stringify\<close>, \<^verbatim>\<open>getIntrospectionQuery()\<close>,
  \<^verbatim>\<open>s.toLowerCase()\<close>, and \<^verbatim>\<open>Buffer.from(s).toString('base64')\<close> as \<open>base64\<close>), the
  network, and the clock at the two places that read it (the validity test on entry,
  the timestamp of the entry stored after the response).
\<close>

record world =
  JSON_stringify :: "jsval \<Rightarrow> string"
  getIntrospectionQuery :: string
  toLowerCase :: "string \<Rightarrow> string"
  base64 :: "string \<Rightarrow> string"
  fetch :: "request \<Rightarrow> fetch_outcome"
  now_on_entry :: int
  now_on_store :: int

datatype effect = ConsoleInfo string | NetworkRequest request

definition build_headers :: "world \<Rightarrow> 'a AuthOptions_scheme \<Rightarrow> (string \<times> string) list" where
  "build_headers w auth =
     [(''Content-Type'', ''application/json'')] @
     (if truthy_str (bearer_token auth)
      then [(''Authorization'', ''Bearer '' @ the (bearer_token auth))]
      else if truthy_str (username auth) \<and> truthy_str (password auth)
      then [(''Authorization'',
             ''Basic '' @ base64 w (the (username auth) @ '':'' @ the (password auth)))]
      else [])"

definition build_request :: "world \<Rightarrow> string \<Rightarrow> 'a AuthOptions_scheme \<Rightarrow> request" where
  "build_request w ep auth =
     \<lparr> url = ep, http_method = ''POST'', headers = build_headers w auth,
       body = JSON_stringify w (JObj [(''query'', JStr (getIntrospectionQuery w))]) \<rparr>"

text \<open>The body of the \<^verbatim>\<open>try\<close> block up to the point where the cache is written: the
  thrown value, or the parsed \<^verbatim>\<open>result\<close>.\<close>

definition try_fetch :: "world \<Rightarrow> request \<Rightarrow> thrown + jsval" where
  "try_fetch w req =
     (case fetch w req of
        Rejected None \<Rightarrow> Inl NonError
      | Rejected (Some m) \<Rightarrow> Inl (ErrorInstance (Error FetchFailure m))
      | Responded r \<Rightarrow>
          if \<not> ok r
          then Inl (ErrorInstance (Error TransportError
                 (''HTTP '' @ decimal (status r) @ '': '' @ statusText r)))
          else (case json r of
              Inl None \<Rightarrow> Inl NonError
            | Inl (Some m) \<Rightarrow> Inl (ErrorInstance (Error FetchFailure m))
            | Inr result \<Rightarrow>
                if nullish result
                then Inl (ErrorInstance (Error FetchFailure (cannot_read result ''errors'')))
                else if truthy (property result ''errors'')
                then Inl (ErrorInstance (Error GraphQLError
                       (''GraphQL errors: '' @ JSON_stringify w (property result ''errors''))))
                else Inr result))"

text \<open>The \<^verbatim>\<open>catch\<close> block: every thrown value leaves as a new \<^verbatim>\<open>Error\<close>.\<close>

fun rewrap :: "thrown \<Rightarrow> error" where
  "rewrap (ErrorInstance e) =
     Error (kind_of e) (''Failed to fetch GraphQL schema: '' @ message e)"
| "rewrap NonError = Error FetchFailure ''Failed to fetch GraphQL schema: Unknown error''"

text \<open>\<^verbatim>\<open>fetchIntrospection\<close>: the result or the error, the service afterwards, and what
  the call did to the outside, in order.\<close>

definition fetchIntrospection ::
  "world \<Rightarrow> service \<Rightarrow> string \<Rightarrow> 'a AuthOptions_scheme
     \<Rightarrow> (error + jsval) \<times> service \<times> effect list" where
  "fetchIntrospection w svc ep auth =
     (let cacheKey = getCacheKey ep auth;
          cached = cache svc cacheKey
      in if cached \<noteq> None \<and> isValidCache svc (now_on_entry w) (the cached)
         then (Inr (data (the cached)), svc, [ConsoleInfo ep])
         else
           (let req = build_request w ep auth in
            case try_fetch w req of
              Inl t \<Rightarrow> (Inl (rewrap t), svc, [ConsoleInfo ep, NetworkRequest req])
            | Inr result \<Rightarrow>
                (Inr (property result ''data''),
                 svc\<lparr>cache := (cache svc)(cacheKey \<mapsto>
                        \<lparr> data = property result ''data'', timestamp = now_on_store w \<rparr>)\<rparr>,
                 [ConsoleInfo ep, NetworkRequest req])))"

text \<open>The call goes to the network: the cache has no entry under the key, or one that
  is no longer valid when the call starts.\<close>

definition cache_miss :: "world \<Rightarrow> service \<Rightarrow> string \<Rightarrow> 'a AuthOptions_scheme \<Rightarrow> bool" where
  "cache_miss w svc ep auth =
     (case cache svc (getCacheKey ep auth) of
        None \<Rightarrow> True
      | Some e \<Rightarrow> \<not> isValidCache svc (now_on_entry w) e)"

text \<open>The \<^verbatim>\<open>errors\<close> field of a response's body; undefined when the body has none or
  does not parse.\<close>

definition response_errors :: "response \<Rightarrow> jsval" where
  "response_errors r =
     (case json r of Inr result \<Rightarrow> property result ''errors'' | Inl t \<Rightarrow> JUndefined)"

section \<open>Array and string methods on untyped values\<close>

text \<open>
  A method call \<^verbatim>\<open>v.m(...)\<close> needs a receiver that has the method: a read on null or
  undefined throws, and so does the call when \<^verbatim>\<open>v.m\<close> is no function (no value of a
  parsed document holds one). \<open>expr\<close> is the source text of the receiver, which the
  runtime quotes in its message.
\<close>

definition not_a_function :: "string \<Rightarrow> string \<Rightarrow> jsval \<Rightarrow> error" where
  "not_a_function expr m v =
     Error TypeError
       (if nullish v then cannot_read v m else expr @ ''.'' @ m @ '' is not a function'')"

fun array_receiver :: "string \<Rightarrow> string \<Rightarrow> jsval \<Rightarrow> error + jsval list" where
  "array_receiver expr m (JArr xs) = Inr xs"
| "array_receiver expr m v = Inl (not_a_function expr m v)"

fun string_receiver :: "string \<Rightarrow> string \<Rightarrow> jsval \<Rightarrow> error + string" where
  "string_receiver expr m (JStr s) = Inr s"
| "string_receiver expr m v = Inl (not_a_function expr m v)"

text \<open>\<^verbatim>\<open>xs.map(f)\<close>, \<^verbatim>\<open>xs.filter(p)\<close>, \<^verbatim>\<open>xs.find(p)\<close> with a callback that may throw: the
  elements are visited in order and the first throw ends the call; \<^verbatim>\<open>find\<close> stops at
  the first hit and yields undefined without one.\<close>

fun Array_map :: "('a \<Rightarrow> error + 'b) \<Rightarrow> 'a list \<Rightarrow> error + 'b list" where
  "Array_map f [] = Inr []"
| "Array_map f (x # xs) =
     and_then (f x) (\<lambda>y. and_then (Array_map f xs) (\<lambda>ys. Inr (y # ys)))"

fun Array_filter :: "('a \<Rightarrow> error + bool) \<Rightarrow> 'a list \<Rightarrow> error + 'a list" where
  "Array_filter p [] = Inr []"
| "Array_filter p (x # xs) =
     and_then (p x) (\<lambda>b. and_then (Array_filter p xs) (\<lambda>ys. Inr (if b then x # ys else ys)))"

fun Array_find :: "(jsval \<Rightarrow> error + bool) \<Rightarrow> jsval list \<Rightarrow> error + jsval" where
  "Array_find p [] = Inr JUndefined"
| "Array_find p (x # xs) = and_then (p x) (\<lambda>b. if b then Inr x else Array_find p xs)"

section \<open>Formatting\<close>

function formatType :: "jsval \<Rightarrow> jsval" where
  "formatType ty =
     (if \<not> truthy ty then JNull
      else if strict_eq (property ty ''kind'') (JStr ''NON_NULL'')
      then JObj [(''kind'', JStr ''NON_NULL''),
                 (''of_type'', formatType (property ty ''ofType'')),
                 (''is_required'', JBool True)]
      else if strict_eq (property ty ''kind'') (JStr ''LIST'')
      then JObj [(''kind'', JStr ''LIST''),
                 (''of_type'', formatType (property ty ''ofType'')),
                 (''is_list'', JBool True)]
      else JObj [(''kind'', property ty ''kind''),
                 (''name'', property ty ''name''),
                 (''description'', property ty ''description'')])"
  by pat_completeness auto

lemma size_map_of: "map_of kvs k = Some v \<Longrightarrow> size v < size (JObj kvs)"
  by (induction kvs) (auto split: if_splits)

lemma size_wrapped:
  "strict_eq (property ty ''kind'') (JStr w) \<Longrightarrow> size (property ty k) < size ty"
  by (cases ty) (auto split: option.splits dest: size_map_of)

termination formatType
  by (relation "measure size") (auto intro: size_wrapped)

declare formatType.simps [simp del]

text \<open>
  Reading the nesting of a type reference, on either side of \<open>formatType\<close>: a wrapper
  is a truthy value whose kind is \<^verbatim>\<open>NON_NULL\<close> or \<^verbatim>\<open>LIST\<close>; the chain of a reference
  is the list of its wrapper kinds from the outside in, its innermost value is what the
  last wrapper wraps. \<open>inner\<close> is the key of the wrapped reference: \<^verbatim>\<open>ofType\<close> in the
  document, \<^verbatim>\<open>of_type\<close> in the result.
\<close>

definition is_wrapper :: "jsval \<Rightarrow> bool" where
  "is_wrapper v =
     (truthy v \<and> (property v ''kind'' = JStr ''NON_NULL'' \<or> property v ''kind'' = JStr ''LIST''))"

function wrapper_chain :: "string \<Rightarrow> jsval \<Rightarrow> jsval list" where
  "wrapper_chain inner v =
     (if is_wrapper v then property v ''kind'' # wrapper_chain inner (property v inner) else [])"
  by pat_completeness auto

lemma size_inner: "is_wrapper v \<Longrightarrow> size (property v k) < size v"
  by (cases v) (auto simp: is_wrapper_def split: option.splits dest: size_map_of)

termination wrapper_chain
  by (relation "measure (\<lambda>(inner, v). size v)") (auto intro: size_inner)

function innermost :: "string \<Rightarrow> jsval \<Rightarrow> jsval" where
  "innermost inner v = (if is_wrapper v then innermost inner (property v inner) else v)"
  by pat_completeness auto

termination innermost
  by (relation "measure (\<lambda>(inner, v). size v)") (auto intro: size_inner)

declare wrapper_chain.simps [simp del] innermost.simps [simp del]

text \<open>A result as the caller sees it once it has been through \<^verbatim>\<open>JSON.stringify\<close>:
  without the properties whose value is undefined.\<close>

fun as_serialised :: "jsval \<Rightarrow> jsval" where
  "as_serialised (JArr xs) = JArr (map (\<lambda>x. if x = JUndefined then JNull else as_serialised x) xs)"
| "as_serialised (JObj kvs) =
     JObj (map (\<lambda>kv. (fst kv, as_serialised (snd kv))) (filter (\<lambda>kv. snd kv \<noteq> JUndefined) kvs))"
| "as_serialised v = v"

text \<open>The callbacks of the formatters read \<^verbatim>\<open>x.name\<close> first, which throws on a null
  or undefined element; the reads after it cannot.\<close>

definition formatArgument :: "jsval \<Rightarrow> error + jsval" where
  "formatArgument arg =
     and_then (get arg ''name'') (\<lambda>name.
       Inr (JObj [(''name'', name),
                  (''description'', property arg ''description''),
                  (''type'', formatType (property arg ''type'')),
                  (''default_value'', property arg ''defaultValue'')]))"

definition formatArguments :: "jsval \<Rightarrow> error + jsval" where
  "formatArguments args =
     (if \<not> truthy args then Inr (JArr [])
      else and_then (array_receiver ''args'' ''map'' args) (\<lambda>xs.
           and_then (Array_map formatArgument xs) (\<lambda>ys. Inr (JArr ys))))"

definition formatTypeField :: "jsval \<Rightarrow> error + jsval" where
  "formatTypeField field =
     and_then (get field ''name'') (\<lambda>name.
       Inr (JObj [(''name'', name),
                  (''description'', property field ''description''),
                  (''type'', formatType (property field ''type'')),
                  (''deprecated'', property field ''isDeprecated''),
                  (''deprecation_reason'', property field ''deprecationReason'')]))"

definition formatTypeFields :: "jsval \<Rightarrow> error + jsval" where
  "formatTypeFields flds =
     and_then (array_receiver ''fields'' ''map'' flds) (\<lambda>xs.
     and_then (Array_map formatTypeField xs) (\<lambda>ys. Inr (JArr ys)))"

definition formatEnumValue :: "jsval \<Rightarrow> error + jsval" where
  "formatEnumValue v =
     and_then (get v ''name'') (\<lambda>name.
       Inr (JObj [(''name'', name),
                  (''description'', property v ''description''),
                  (''deprecated'', property v ''isDeprecated''),
                  (''deprecation_reason'', property v ''deprecationReason'')]))"

definition formatEnumValues :: "jsval \<Rightarrow> error + jsval" where
  "formatEnumValues vals =
     and_then (array_receiver ''values'' ''map'' vals) (\<lambda>xs.
     and_then (Array_map formatEnumValue xs) (\<lambda>ys. Inr (JArr ys)))"

definition formatInputField :: "jsval \<Rightarrow> error + jsval" where
  "formatInputField field =
     and_then (get field ''name'') (\<lambda>name.
       Inr (JObj [(''name'', name),
                  (''description'', property field ''description''),
                  (''type'', formatType (property field ''type'')),
                  (''default_value'', property field ''defaultValue'')]))"

definition formatInputFields :: "jsval \<Rightarrow> error + jsval" where
  "formatInputFields flds =
     and_then (array_receiver ''fields'' ''map'' flds) (\<lambda>xs.
     and_then (Array_map formatInputField xs) (\<lambda>ys. Inr (JArr ys)))"

section \<open>The operations\<close>

text \<open>
  Each public operation resolves the endpoint, fetches the document and then works on
  it. The work on the document is a definition of its own (\<open>_on\<close>), which the
  operation applies to what \<open>fetchIntrospection\<close> returned. Of the six operations
  the four below are covered; \<open>getSchema\<close>, which hands the document to the GraphQL
  library, and \<open>getTypeDetails\<close> are not.
\<close>

definition resolve_endpoint :: "service \<Rightarrow> 'a BaseOptions_scheme \<Rightarrow> string" where
  "resolve_endpoint svc options =
     (case endpoint options of Some e \<Rightarrow> e | None \<Rightarrow> DEFAULT_ENDPOINT svc)"

text \<open>The search callback of the three filters; \<open>var\<close> is the name of its parameter
  in the source (\<^verbatim>\<open>field\<close> or \<^verbatim>\<open>type\<close>).\<close>

definition matches_search :: "world \<Rightarrow> string \<Rightarrow> string \<Rightarrow> jsval \<Rightarrow> error + bool" where
  "matches_search w var searchLower x =
     and_then (get x ''name'') (\<lambda>n.
     and_then (string_receiver (var @ ''.name'') ''toLowerCase'' n) (\<lambda>s.
       if str_includes (toLowerCase w s) searchLower then Inr True
       else if \<not> truthy (property x ''description'') then Inr False
       else and_then (string_receiver (var @ ''.description'') ''toLowerCase''
                        (property x ''description'')) (\<lambda>d.
              Inr (str_includes (toLowerCase w d) searchLower))))"

text \<open>The map callback of \<open>filterQueries\<close> and \<open>filterMutations\<close>.\<close>

definition formatOperation :: "bool \<Rightarrow> jsval \<Rightarrow> error + jsval" where
  "formatOperation is_detailed field =
     and_then (get field ''name'') (\<lambda>name.
       let base = [(''name'', name),
                   (''description'', property field ''description''),
                   (''deprecated'', property field ''isDeprecated''),
                   (''deprecation_reason'', property field ''deprecationReason'')]
       in if is_detailed
          then and_then (formatArguments (property field ''args'')) (\<lambda>args.
                 Inr (JObj (base @ [(''arguments'', args),
                                    (''return_type'', formatType (property field ''type''))])))
          else Inr (JObj base))"

text \<open>
  \<open>filterQueries\<close> and \<open>filterMutations\<close> are the same text in the source up to the
  names: the root read from the schema (\<^verbatim>\<open>queryType\<close>, \<^verbatim>\<open>mutationType\<close>) and the
  variable and result key of the list (\<^verbatim>\<open>queries\<close>, \<^verbatim>\<open>mutations\<close>). The text is
  modelled once, with the two names as parameters.
\<close>

definition empty_result :: "string \<Rightarrow> string \<Rightarrow> jsval" where
  "empty_result ep list_key =
     JObj [(''success'', JBool True), (''endpoint'', JStr ep),
           (list_key, JArr []), (''total'', JNum 0)]"

definition filterRootFields ::
  "world \<Rightarrow> string \<Rightarrow> string \<Rightarrow> string \<Rightarrow> jsval \<Rightarrow> 'a FilterOptions_scheme
     \<Rightarrow> error + jsval" where
  "filterRootFields w root_key list_key ep introspectionData options =
     and_then (get introspectionData ''__schema'') (\<lambda>schema.
     and_then (get schema root_key) (\<lambda>rootType.
       if \<not> truthy rootType then Inr (empty_result ep list_key)
       else
         and_then (array_receiver ''introspectionData.__schema.types'' ''find''
                     (property schema ''types'')) (\<lambda>types.
         and_then (Array_find (\<lambda>ty. and_then (get ty ''name'') (\<lambda>n.
                       Inr (strict_eq n (property rootType ''name'')))) types) (\<lambda>typeData.
           if \<not> truthy typeData \<or> \<not> truthy (property typeData ''fields'')
           then Inr (empty_result ep list_key)
           else
             and_then (array_receiver list_key
                         (if truthy_str (search options) then ''filter'' else ''map'')
                         (property typeData ''fields'')) (\<lambda>all_fields.
             and_then (if truthy_str (search options)
                       then Array_filter
                              (matches_search w ''field'' (toLowerCase w (the (search options))))
                              all_fields
                       else Inr all_fields) (\<lambda>selected.
             and_then (Array_map (formatOperation (truthy_bool (detailed options))) selected)
               (\<lambda>formatted.
                 Inr (JObj [(''success'', JBool True), (''endpoint'', JStr ep),
                            (''search_term'', of_string_opt (search options)),
                            (list_key, JArr formatted),
                            (''total'', JNum (int (length formatted)))]))))))))"

definition filterQueries_on ::
  "world \<Rightarrow> string \<Rightarrow> jsval \<Rightarrow> 'a FilterOptions_scheme \<Rightarrow> error + jsval" where
  "filterQueries_on w = filterRootFields w ''queryType'' ''queries''"

definition filterMutations_on ::
  "world \<Rightarrow> string \<Rightarrow> jsval \<Rightarrow> 'a FilterOptions_scheme \<Rightarrow> error + jsval" where
  "filterMutations_on w = filterRootFields w ''mutationType'' ''mutations''"

definition filterQueries ::
  "world \<Rightarrow> service \<Rightarrow> 'a FilterOptions_scheme \<Rightarrow> (error + jsval) \<times> service \<times> effect list" where
  "filterQueries w svc options =
     (let ep = resolve_endpoint svc options in
      case fetchIntrospection w svc ep options of
        (r, svc', effs) \<Rightarrow>
          (and_then r (\<lambda>introspectionData. filterQueries_on w ep introspectionData options),
           svc', effs))"

definition filterMutations ::
  "world \<Rightarrow> service \<Rightarrow> 'a FilterOptions_scheme \<Rightarrow> (error + jsval) \<times> service \<times> effect list" where
  "filterMutations w svc options =
     (let ep = resolve_endpoint svc options in
      case fetchIntrospection w svc ep options of
        (r, svc', effs) \<Rightarrow>
          (and_then r (\<lambda>introspectionData. filterMutations_on w ep introspectionData options),
           svc', effs))"

text \<open>\<^verbatim>\<open>v ? f(v) : null\<close>\<close>

definition if_truthy :: "jsval \<Rightarrow> (jsval \<Rightarrow> error + jsval) \<Rightarrow> error + jsval" where
  "if_truthy v f = (if truthy v then f v else Inr JNull)"

text \<open>\<^verbatim>\<open>xs.map(i => i.name)\<close>\<close>

definition names_of :: "string \<Rightarrow> jsval \<Rightarrow> error + jsval" where
  "names_of expr v =
     and_then (array_receiver expr ''map'' v) (\<lambda>xs.
     and_then (Array_map (\<lambda>i. get i ''name'') xs) (\<lambda>ys. Inr (JArr ys)))"

text \<open>The map callback of \<open>filterTypes\<close>. Its elements have passed the first filter,
  which read their names: none is null or undefined.\<close>

definition formatTypeItem :: "bool \<Rightarrow> jsval \<Rightarrow> error + jsval" where
  "formatTypeItem is_detailed ty =
     (let base = [(''name'', property ty ''name''),
                  (''kind'', property ty ''kind''),
                  (''description'', property ty ''description'')]
      in if is_detailed
         then
           and_then (if_truthy (property ty ''fields'') formatTypeFields) (\<lambda>f.
           and_then (if_truthy (property ty ''enumValues'') formatEnumValues) (\<lambda>e.
           and_then (if_truthy (property ty ''inputFields'') formatInputFields) (\<lambda>i.
           and_then (if_truthy (property ty ''interfaces'') (names_of ''type.interfaces''))
             (\<lambda>ifs.
           and_then (if_truthy (property ty ''possibleTypes'') (names_of ''type.possibleTypes''))
             (\<lambda>pts.
             Inr (JObj (base @ [(''fields'', f), (''enum_values'', e), (''input_fields'', i),
                                (''interfaces'', ifs), (''possible_types'', pts)])))))))
         else Inr (JObj base))"

definition filterTypes_on ::
  "world \<Rightarrow> string \<Rightarrow> jsval \<Rightarrow> 'a TypeFilterOptions_scheme \<Rightarrow> error + jsval" where
  "filterTypes_on w ep introspectionData options =
     and_then (get introspectionData ''__schema'') (\<lambda>schema.
     and_then (get schema ''types'') (\<lambda>all_types.
     and_then (array_receiver ''introspectionData.__schema.types'' ''filter'' all_types)
       (\<lambda>declared.
     and_then (Array_filter (\<lambda>ty. and_then (get ty ''name'') (\<lambda>n.
                   and_then (string_receiver ''type.name'' ''startsWith'' n) (\<lambda>s.
                     Inr (\<not> startsWith s ''__'')))) declared) (\<lambda>types0.
       let types1 =
             (if truthy_str (kind options)
              then filter (\<lambda>ty. strict_eq (property ty ''kind'') (JStr (the (kind options))))
                     types0
              else types0)
       in
     and_then (if truthy_str (search options)
               then Array_filter
                      (matches_search w ''type'' (toLowerCase w (the (search options)))) types1
               else Inr types1) (\<lambda>types2.
     and_then (Array_map (formatTypeItem (truthy_bool (detailed options))) types2)
       (\<lambda>formattedTypes.
         Inr (JObj [(''success'', JBool True), (''endpoint'', JStr ep),
                    (''search_term'', of_string_opt (search options)),
                    (''kind_filter'', of_string_opt (kind options)),
                    (''types'', JArr formattedTypes),
                    (''total'', JNum (int (length formattedTypes)))])))))))"

definition filterTypes ::
  "world \<Rightarrow> service \<Rightarrow> 'a TypeFilterOptions_scheme
     \<Rightarrow> (error + jsval) \<times> service \<times> effect list" where
  "filterTypes w svc options =
     (let ep = resolve_endpoint svc options in
      case fetchIntrospection w svc ep options of
        (r, svc', effs) \<Rightarrow>
          (and_then r (\<lambda>introspectionData. filterTypes_on w ep introspectionData options),
           svc', effs))"

text \<open>The three messages of \<open>getFieldDetails\<close>.\<close>

definition no_root_message :: "string \<Rightarrow> string" where
  "no_root_message operationType = ''No '' @ operationType @ '' type available''"

definition no_fields_message :: "string \<Rightarrow> string" where
  "no_fields_message operationType = operationType @ '' type has no fields''"

definition field_not_found_message :: "string \<Rightarrow> string \<Rightarrow> string" where
  "field_not_found_message fname operationType =
     ''Field '' @ dquote @ fname @ dquote @ '' not found in '' @ operationType @ '' type''"

definition getFieldDetails_on ::
  "string \<Rightarrow> jsval \<Rightarrow> 'a FieldDetailsOptions_scheme \<Rightarrow> error + jsval" where
  "getFieldDetails_on ep introspectionData options =
     (let operationType =
            (if truthy_str (operation_type options) then the (operation_type options)
             else ''query'')
      in
      and_then (get introspectionData ''__schema'') (\<lambda>schema.
      and_then (get schema (if operationType = ''mutation'' then ''mutationType''
                            else ''queryType'')) (\<lambda>rootType.
        if \<not> truthy rootType
        then Inl (Error NotFoundError (no_root_message operationType))
        else
          and_then (array_receiver ''introspectionData.__schema.types'' ''find''
                      (property schema ''types'')) (\<lambda>types.
          and_then (Array_find (\<lambda>ty. and_then (get ty ''name'') (\<lambda>n.
                        Inr (strict_eq n (property rootType ''name'')))) types) (\<lambda>typeData.
            if \<not> truthy typeData \<or> \<not> truthy (property typeData ''fields'')
            then Inl (Error NotFoundError (no_fields_message operationType))
            else
              and_then (array_receiver ''typeData.fields'' ''find''
                          (property typeData ''fields'')) (\<lambda>candidates.
              and_then (Array_find (\<lambda>f. and_then (get f ''name'') (\<lambda>n.
                            Inr (strict_eq n (JStr (field_name options))))) candidates)
                (\<lambda>field.
                if \<not> truthy field
                then Inl (Error NotFoundError
                            (field_not_found_message (field_name options) operationType))
                else
                  and_then (formatArguments (property field ''args'')) (\<lambda>args.
                    Inr (JObj [(''success'', JBool True), (''endpoint'', JStr ep),
                               (''operation_type'', JStr operationType),
                               (''field'', JObj
                                  [(''name'', property field ''name''),
                                   (''description'', property field ''description''),
                                   (''arguments'', args),
                                   (''return_type'', formatType (property field ''type'')),
                                   (''deprecated'', property field ''isDeprecated''),
                                   (''deprecation_reason'',
                                    property field ''deprecationReason'')])])))))))))"

definition getFieldDetails ::
  "world \<Rightarrow> service \<Rightarrow> 'a FieldDetailsOptions_scheme
     \<Rightarrow> (error + jsval) \<times> service \<times> effect list" where
  "getFieldDetails w svc options =
     (let ep = resolve_endpoint svc options in
      case fetchIntrospection w svc ep options of
        (r, svc', effs) \<Rightarrow>
          (and_then r (\<lambda>introspectionData. getFieldDetails_on ep introspectionData options),
           svc', effs))"

section \<open>Reading documents and results\<close>

text \<open>
  What the claims say about a document or a result is written down here with the
  readers below, apart from the code. A declared type is well named when its name is a
  string and its description is a string or falsy, as an introspection result has them.
\<close>

fun is_string :: "jsval \<Rightarrow> bool" where
  "is_string (JStr s) = True"
| "is_string v = False"

fun string_of :: "jsval \<Rightarrow> string" where
  "string_of (JStr s) = s"
| "string_of v = []"

fun elements :: "jsval \<Rightarrow> jsval list" where
  "elements (JArr xs) = xs"
| "elements v = []"

definition well_named :: "jsval \<Rightarrow> bool" where
  "well_named ty =
     (is_string (property ty ''name'') \<and>
      (is_string (property ty ''description'') \<or> \<not> truthy (property ty ''description'')))"

text \<open>\<open>v\<close> is a string that contains \<open>s\<close>, letter case aside: the lower-cased \<open>s\<close>
  occurs in the lower-cased \<open>v\<close>, lower-cased as the runtime does it.\<close>

definition contains_ci :: "world \<Rightarrow> jsval \<Rightarrow> string \<Rightarrow> bool" where
  "contains_ci w v s =
     (is_string v \<and> str_includes (toLowerCase w (string_of v)) (toLowerCase w s))"

text \<open>The types \<open>filter_types\<close> is specified to return: not an introspection type, of
  the given kind when a kind is given, and matching the search term in name or
  description when a term is given. Given means given and non-empty, as everywhere in
  the service.\<close>

definition type_selected :: "world \<Rightarrow> 'a TypeFilterOptions_scheme \<Rightarrow> jsval \<Rightarrow> bool" where
  "type_selected w options ty =
     (\<not> startsWith (string_of (property ty ''name'')) ''__''
      \<and> (truthy_str (kind options) \<longrightarrow> property ty ''kind'' = JStr (the (kind options)))
      \<and> (truthy_str (search options) \<longrightarrow>
            contains_ci w (property ty ''name'') (the (search options))
            \<or> contains_ci w (property ty ''description'') (the (search options))))"

text \<open>The declared type that a root reference names: the first with the root's name.\<close>

definition found_type :: "jsval \<Rightarrow> jsval list \<Rightarrow> jsval option" where
  "found_type rootType ts =
     find (\<lambda>t. strict_eq (property t ''name'') (property rootType ''name'')) ts"

text \<open>A schema that has no field list for a root: it has no such root, or its types
  list (an array without null elements) has no type of the root's name, or that type
  has no field list.\<close>

definition lacks_root_fields :: "string \<Rightarrow> jsval \<Rightarrow> bool" where
  "lacks_root_fields root_key schema =
     (\<not> nullish schema \<and>
      (\<not> truthy (property schema root_key) \<or>
       (case property schema ''types'' of
          JArr ts \<Rightarrow>
            list_all (\<lambda>t. \<not> nullish t) ts \<and>
            (case found_type (property schema root_key) ts of
               None \<Rightarrow> True
             | Some t \<Rightarrow> \<not> truthy (property t ''fields''))
        | _ \<Rightarrow> False)))"

text \<open>The operation type of a \<open>get_field_details\<close> call, the schema property that
  holds its root, and the field list of that root when there is one.\<close>

definition operation_name :: "'a FieldDetailsOptions_scheme \<Rightarrow> string" where
  "operation_name options =
     (if truthy_str (operation_type options) then the (operation_type options) else ''query'')"

definition root_key_of :: "string \<Rightarrow> string" where
  "root_key_of operationType = (if operationType = ''mutation'' then ''mutationType'' else ''queryType'')"

definition root_field_list :: "string \<Rightarrow> jsval \<Rightarrow> jsval list option" where
  "root_field_list key schema =
     (if truthy (property schema key)
      then (case property schema ''types'' of
              JArr ts \<Rightarrow>
                if list_all (\<lambda>t. \<not> nullish t) ts
                then (case found_type (property schema key) ts of
                        Some t \<Rightarrow> (case property t ''fields'' of JArr fs \<Rightarrow> Some fs | _ \<Rightarrow> None)
                      | None \<Rightarrow> None)
                else None
            | _ \<Rightarrow> None)
      else None)"

text \<open>A step that can only fail with the runtime's TypeError.\<close>

definition type_fault :: "error + 'a \<Rightarrow> bool" where
  "type_fault r = (case r of Inl e \<Rightarrow> kind_of e = TypeError | Inr x \<Rightarrow> True)"

section \<open>A sample world\<close>

text \<open>
  Concrete runs need concrete runtime functions, a network and a clock. The sample
  world's functions agree with the runtime's on ASCII text, which is all the sample
  runs use. Its serialiser is the compact form on the values of this model: properties
  whose value is undefined are left out, an undefined array element is written
  \<^verbatim>\<open>null\<close>.
\<close>

text \<open>A lower-casing for the sample world: the letters A to Z, which is what
  \<^verbatim>\<open>toLowerCase\<close> does on ASCII text.\<close>

definition lower_char :: "char \<Rightarrow> char" where
  "lower_char c =
     (if 65 \<le> (of_char c :: nat) \<and> (of_char c :: nat) \<le> 90
      then char_of ((of_char c :: nat) + 32) else c)"

definition ascii_toLowerCase :: "string \<Rightarrow> string" where
  "ascii_toLowerCase s = map lower_char s"

text \<open>A base64 encoder for the sample world, one byte per character: three bytes to
  four characters, padded with \<^verbatim>\<open>=\<close>. On ASCII text it is
  \<^verbatim>\<open>Buffer.from(s).toString('base64')\<close>.\<close>

definition base64_digit :: "nat \<Rightarrow> char" where
  "base64_digit n =
     (''ABCDEFGHIJKLMNOPQRSTUVWXYZabcdefghijklmnopqrstuvwxyz0123456789+/'') ! (n mod 64)"

fun base64_bytes :: "nat list \<Rightarrow> string" where
  "base64_bytes [] = []"
| "base64_bytes [a] =
     [base64_digit (a div 4), base64_digit ((a mod 4) * 16), CHR ''='', CHR ''='']"
| "base64_bytes [a, b] =
     [base64_digit (a div 4), base64_digit ((a mod 4) * 16 + b div 16),
      base64_digit ((b mod 16) * 4), CHR ''='']"
| "base64_bytes (a # b # c # rest) =
     [base64_digit (a div 4), base64_digit ((a mod 4) * 16 + b div 16),
      base64_digit ((b mod 16) * 4 + c div 64), base64_digit (c mod 64)]
     @ base64_bytes rest"

definition ascii_base64 :: "string \<Rightarrow> string" where
  "ascii_base64 s = base64_bytes (map of_char s)"

fun join_comma :: "string list \<Rightarrow> string" where
  "join_comma [] = []"
| "join_comma [s] = s"
| "join_comma (s # t # ts) = s @ '','' @ join_comma (t # ts)"

definition quoted :: "string \<Rightarrow> string" where
  "quoted s =
     dquote
     @ concat (map (\<lambda>c. if c = CHR 0x22 \<or> c = CHR 0x5C then [CHR 0x5C, c] else [c]) s)
     @ dquote"

definition show_int :: "int \<Rightarrow> string" where
  "show_int i = (if i < 0 then ''-'' @ decimal (nat (- i)) else decimal (nat i))"

fun stringify :: "jsval \<Rightarrow> string" where
  "stringify JUndefined = ''null''"
| "stringify JNull = ''null''"
| "stringify (JBool b) = (if b then ''true'' else ''false'')"
| "stringify (JNum n) = show_int n"
| "stringify (JStr s) = quoted s"
| "stringify (JArr xs) = ''['' @ join_comma (map stringify xs) @ '']''"
| "stringify (JObj kvs) =
     ''{'' @ join_comma (map (\<lambda>kv. quoted (fst kv) @ '':'' @ stringify (snd kv))
                          (filter (\<lambda>kv. snd kv \<noteq> JUndefined) kvs)) @ ''}''"

text \<open>A world whose network answers every request with \<open>out\<close> and whose clock reads
  \<open>t0\<close> on entry and \<open>t1\<close> when the entry is stored.\<close>

definition sample_world :: "fetch_outcome \<Rightarrow> int \<Rightarrow> int \<Rightarrow> world" where
  "sample_world out t0 t1 =
     \<lparr> JSON_stringify = stringify,
       getIntrospectionQuery = ''query IntrospectionQuery { __schema { queryType { name } } }'',
       toLowerCase = ascii_toLowerCase,
       base64 = ascii_base64,
       fetch = (\<lambda>req. out),
       now_on_entry = t0,
       now_on_store = t1 \<rparr>"

definition answer :: "nat \<Rightarrow> string \<Rightarrow> jsval \<Rightarrow> fetch_outcome" where
  "answer code text payload = Responded \<lparr> status = code, statusText = text, json = Inr payload \<rparr>"

definition auth_of ::
  "string option \<Rightarrow> string option \<Rightarrow> string option \<Rightarrow> AuthOptions" where
  "auth_of u p t = \<lparr> username = u, password = p, bearer_token = t \<rparr>"

text \<open>A small schema: a query root with one field, no mutation root, two scalars, an
  object type and one introspection type.\<close>

definition sample_schema :: jsval where
  "sample_schema =
     JObj [
       (''queryType'', JObj [(''name'', JStr ''Query'')]),
       (''mutationType'', JNull),
       (''types'', JArr [
          JObj [(''kind'', JStr ''OBJECT''), (''name'', JStr ''Query''),
                (''description'', JNull),
                (''fields'', JArr [
                   JObj [(''name'', JStr ''user''),
                         (''description'', JStr ''Find a User''),
                         (''args'', JArr []),
                         (''type'', JObj [(''kind'', JStr ''OBJECT''),
                                          (''name'', JStr ''User''), (''ofType'', JNull)]),
                         (''isDeprecated'', JBool False),
                         (''deprecationReason'', JNull)]])],
          JObj [(''kind'', JStr ''SCALAR''), (''name'', JStr ''ID''),
                (''description'', JStr ''An id'')],
          JObj [(''kind'', JStr ''SCALAR''), (''name'', JStr ''String''),
                (''description'', JNull)],
          JObj [(''kind'', JStr ''OBJECT''), (''name'', JStr ''Widget''),
                (''description'', JStr ''An identified thing''),
                (''fields'', JArr [])],
          JObj [(''kind'', JStr ''OBJECT''), (''name'', JStr ''__Type''),
                (''description'', JNull)]])]"

definition sample_document :: jsval where
  "sample_document = JObj [(''__schema'', sample_schema)]"

text \<open>The reference \<^verbatim>\<open>[Int]!\<close>.\<close>

definition sample_type_ref :: jsval where
  "sample_type_ref =
     JObj [(''kind'', JStr ''NON_NULL''),
           (''ofType'', JObj [(''kind'', JStr ''LIST''),
                              (''ofType'', JObj [(''kind'', JStr ''SCALAR''),
                                                 (''name'', JStr ''Int'')])])]"

definition sample_endpoint :: string where
  "sample_endpoint = ''http://localhost:4000/graphql''"

text \<open>A schema whose query root names a type without a field list.\<close>

definition bare_document :: jsval where
  "bare_document =
     JObj [(''__schema'',
            JObj [(''queryType'', JObj [(''name'', JStr ''Query'')]),
                  (''types'', JArr [JObj [(''kind'', JStr ''OBJECT''),
                                          (''name'', JStr ''Query'')]])])]"

text \<open>Options of the three kinds of call, all for the sample endpoint and without
  credentials.\<close>

definition filter_options :: "string option \<Rightarrow> bool option \<Rightarrow> FilterOptions" where
  "filter_options s d =
     \<lparr> username = None, password = None, bearer_token = None,
       endpoint = Some sample_endpoint, search = s, detailed = d \<rparr>"

definition type_options :: "string option \<Rightarrow> string option \<Rightarrow> bool option \<Rightarrow> TypeFilterOptions" where
  "type_options s k d =
     \<lparr> username = None, password = None, bearer_token = None,
       endpoint = Some sample_endpoint, search = s, detailed = d, kind = k \<rparr>"

definition field_options :: "string \<Rightarrow> string option \<Rightarrow> FieldDetailsOptions" where
  "field_options f t =
     \<lparr> username = None, password = None, bearer_token = None,
       endpoint = Some sample_endpoint, field_name = f, operation_type = t \<rparr>"

text \<open>A world whose network answers every request with \<open>doc\<close> as the \<^verbatim>\<open>data\<close> of a
  200 response.\<close>

definition serving :: "jsval \<Rightarrow> world" where
  "serving doc = sample_world (answer 200 ''OK'' (JObj [(''data'', doc)])) 0 0"

section \<open>Basic facts\<close>

lemma strict_eq_str [simp]: "strict_eq v (JStr s) \<longleftrightarrow> v = JStr s"
  by (cases v) auto

lemma truthy_iff: "truthy v \<longleftrightarrow> v \<notin> {JUndefined, JNull, JBool False, JNum 0, JStr []}"
  by (cases v) auto

lemma property_nullish: "nullish v \<Longrightarrow> property v k = JUndefined"
  by (auto simp: nullish_def)

lemma get_ok: "\<not> nullish v \<Longrightarrow> get v k = Inr (property v k)"
  by (simp add: get_def)

lemma not_nullish_property: "property v k \<noteq> JUndefined \<Longrightarrow> \<not> nullish v"
  by (auto simp: nullish_def)

lemma and_then_Inr: "and_then m f = Inr y \<longleftrightarrow> (\<exists>x. m = Inr x \<and> f x = Inr y)"
  by (cases m) auto

lemma and_then_Inl: "and_then m f = Inl e \<longleftrightarrow> m = Inl e \<or> (\<exists>x. m = Inr x \<and> f x = Inl e)"
  by (cases m) auto

lemma Array_filter_pure:
  "\<forall>x\<in>set xs. p x = Inr (q x) \<Longrightarrow> Array_filter p xs = Inr (filter q xs)"
  by (induction xs) simp_all

lemma Array_find_pure:
  "\<forall>x\<in>set xs. p x = Inr (q x) \<Longrightarrow>
   Array_find p xs = Inr (case find q xs of None \<Rightarrow> JUndefined | Some x \<Rightarrow> x)"
  by (induction xs) simp_all

lemma find_by_name:
  assumes "list_all (\<lambda>t. \<not> nullish t) ts"
  shows "Array_find (\<lambda>ty. and_then (get ty ''name'') (\<lambda>n. Inr (strict_eq n v))) ts
       = Inr (case find (\<lambda>t. strict_eq (property t ''name'') v) ts of
                None \<Rightarrow> JUndefined | Some x \<Rightarrow> x)"
  using assms by (intro Array_find_pure) (simp add: list_all_iff get_ok)

lemma Array_map_length: "Array_map f xs = Inr ys \<Longrightarrow> length ys = length xs"
  by (induction xs arbitrary: ys) (auto simp: and_then_Inr)

lemmas sample_unfold = fetchIntrospection_def getCacheKey_def authKey_def auth_of_def
  new_service_def sample_world_def answer_def try_fetch_def ok_def nullish_def
  sample_endpoint_def Let_def isValidCache_def

lemma serving_fetches:
  "endpoint options = Some ep \<Longrightarrow>
   fst (fetchIntrospection (serving doc) (new_service Map.empty)
          (resolve_endpoint (new_service Map.empty) options) options) = Inr doc"
  by (simp add: serving_def sample_unfold resolve_endpoint_def)

section \<open>The cache\<close>

lemma fetch_cache_hit:
  assumes "cache svc (getCacheKey ep auth) = Some e"
    and "now_on_entry w - timestamp e < CACHE_DURATION svc"
  shows "fetchIntrospection w svc ep auth = (Inr (data e), svc, [ConsoleInfo ep])"
  using assms by (simp add: fetchIntrospection_def isValidCache_def)

lemma fetch_success_entry:
  assumes "fetchIntrospection w svc ep auth = (Inr doc, svc', effs)"
  shows "\<exists>e. cache svc' (getCacheKey ep auth) = Some e \<and> data e = doc"
  using assms
  by (auto simp: fetchIntrospection_def Let_def split: if_splits sum.splits)

lemma fetch_keeps_duration:
  assumes "fetchIntrospection w svc ep auth = (r, svc', effs)"
  shows "CACHE_DURATION svc' = CACHE_DURATION svc"
  using assms
  by (auto simp: fetchIntrospection_def Let_def split: if_splits sum.splits)

lemma same_authKey: "authKey a2 = authKey a1 \<Longrightarrow> getCacheKey ep a2 = getCacheKey ep a1"
  by (simp add: getCacheKey_def)

text \<open>A first call that fetches the sample document for \<^verbatim>\<open>alice\<close> at time 1000 and
  stores it at time 1200.\<close>

lemma first_call:
  "fetchIntrospection
       (sample_world (answer 200 ''OK'' (JObj [(''data'', sample_document)])) 1000 1200)
       (new_service Map.empty) sample_endpoint
       (auth_of (Some ''alice'') (Some ''secret'') None)
     = (Inr sample_document,
        (new_service Map.empty)\<lparr>cache :=
           [''http://localhost:4000/graphql:alice'' \<mapsto>
              \<lparr>data = sample_document, timestamp = 1200\<rparr>]\<rparr>,
        [ConsoleInfo sample_endpoint,
         NetworkRequest
           (build_request
              (sample_world (answer 200 ''OK'' (JObj [(''data'', sample_document)])) 1000 1200)
              sample_endpoint (auth_of (Some ''alice'') (Some ''secret'') None))])"
  by (simp add: fetchIntrospection_def getCacheKey_def authKey_def auth_of_def
        new_service_def sample_world_def answer_def try_fetch_def ok_def nullish_def
        sample_endpoint_def Let_def)

text \<open>
  C1. Two calls with the same endpoint and the same derived auth identity: when the
  first returned a document, so that the cache holds an entry under their key, and the
  second starts while that entry's age is strictly below the cache duration, the second
  call returns the first call's document, leaves the service as it is and does nothing
  to the outside but write its log line: no request is sent.
\<close>

theorem cached_document_is_reused:
  assumes first: "fetchIntrospection w1 svc ep auth1 = (Inr doc, svc1, effs1)"
    and same: "authKey auth2 = authKey auth1"
    and entry: "cache svc1 (getCacheKey ep auth1) = Some e"
    and age: "now_on_entry w2 - timestamp e < CACHE_DURATION svc"
  shows "fetchIntrospection w2 svc1 ep auth2 = (Inr doc, svc1, [ConsoleInfo ep])"
proof -
  from fetch_success_entry [OF first] entry have "data e = doc" by auto
  moreover have "CACHE_DURATION svc1 = CACHE_DURATION svc"
    by (rule fetch_keeps_duration [OF first])
  moreover have "getCacheKey ep auth2 = getCacheKey ep auth1"
    by (rule same_authKey [OF same])
  ultimately show ?thesis
    using fetch_cache_hit [of svc1 ep auth2 e w2] entry age by simp
qed

text \<open>The second call comes 299999 ms after the entry was stored, on a network that
  would reject every request.\<close>

theorem cached_document_is_reused_witness:
  "fetchIntrospection (sample_world (Rejected None) 301199 301199)
     ((new_service Map.empty)\<lparr>cache :=
           [''http://localhost:4000/graphql:alice'' \<mapsto>
              \<lparr>data = sample_document, timestamp = 1200\<rparr>]\<rparr>)
     sample_endpoint (auth_of (Some ''alice'') (Some ''secret'') None)
   = (Inr sample_document,
      (new_service Map.empty)\<lparr>cache :=
           [''http://localhost:4000/graphql:alice'' \<mapsto>
              \<lparr>data = sample_document, timestamp = 1200\<rparr>]\<rparr>,
      [ConsoleInfo sample_endpoint])"
  by (rule cached_document_is_reused [OF first_call,
        where e = "\<lparr>data = sample_document, timestamp = 1200\<rparr>"])
     (simp_all add: authKey_def auth_of_def getCacheKey_def sample_endpoint_def
        sample_world_def new_service_def)

lemma authKey_username:
  "username a = Some u \<Longrightarrow> u \<noteq> [] \<Longrightarrow> authKey a = u"
  by (simp add: authKey_def)

text \<open>
  C4. Two auth descriptors with the same non-empty username give the same cache key,
  whatever their passwords (and bearer tokens) are: after a call with the first has
  returned a document, a call with the second made while the entry's age is below the
  cache duration returns that document from the cache and sends no request.
\<close>

theorem same_username_shares_entry:
  assumes user1: "username a1 = Some u" and user2: "username a2 = Some u"
    and nonempty: "u \<noteq> []"
    and first: "fetchIntrospection w1 svc ep a1 = (Inr doc, svc1, effs1)"
    and entry: "cache svc1 (getCacheKey ep a1) = Some e"
    and age: "now_on_entry w2 - timestamp e < CACHE_DURATION svc"
  shows "getCacheKey ep a2 = getCacheKey ep a1 \<and>
         fetchIntrospection w2 svc1 ep a2 = (Inr doc, svc1, [ConsoleInfo ep])"
proof -
  have "authKey a2 = authKey a1"
    using authKey_username [OF user1 nonempty] authKey_username [OF user2 nonempty] by simp
  then have key: "getCacheKey ep a2 = getCacheKey ep a1"
    by (rule same_authKey)
  from fetch_success_entry [OF first] entry have stored: "data e = doc" by auto
  have "CACHE_DURATION svc1 = CACHE_DURATION svc"
    by (rule fetch_keeps_duration [OF first])
  with age have "now_on_entry w2 - timestamp e < CACHE_DURATION svc1" by simp
  with entry key have "fetchIntrospection w2 svc1 ep a2 = (Inr (data e), svc1, [ConsoleInfo ep])"
    by (intro fetch_cache_hit) simp_all
  with key stored show ?thesis by simp
qed

text \<open>The document fetched for \<^verbatim>\<open>alice\<close> with one password is served to \<^verbatim>\<open>alice\<close> with
  another.\<close>

theorem same_username_shares_entry_witness:
  "getCacheKey sample_endpoint (auth_of (Some ''alice'') (Some ''wrong'') (Some ''tok''))
     = getCacheKey sample_endpoint (auth_of (Some ''alice'') (Some ''secret'') None) \<and>
   fetchIntrospection (sample_world (Rejected None) 2000 2000)
     ((new_service Map.empty)\<lparr>cache :=
           [''http://localhost:4000/graphql:alice'' \<mapsto>
              \<lparr>data = sample_document, timestamp = 1200\<rparr>]\<rparr>)
     sample_endpoint (auth_of (Some ''alice'') (Some ''wrong'') (Some ''tok''))
   = (Inr sample_document,
      (new_service Map.empty)\<lparr>cache :=
           [''http://localhost:4000/graphql:alice'' \<mapsto>
              \<lparr>data = sample_document, timestamp = 1200\<rparr>]\<rparr>,
      [ConsoleInfo sample_endpoint])"
  by (rule same_username_shares_entry [OF _ _ _ first_call,
        where u = "''alice''" and e = "\<lparr>data = sample_document, timestamp = 1200\<rparr>"])
     (simp_all add: auth_of_def getCacheKey_def authKey_def sample_endpoint_def
        sample_world_def new_service_def)

text \<open>
  C10. Whatever a call returns, it leaves the service as it was when it fails; and the
  cache differs afterwards only when the call returned a document that it fetched over
  the network.
\<close>

theorem failed_fetch_keeps_cache:
  assumes "fetchIntrospection w svc ep auth = (r, svc', effs)"
  shows "(\<forall>e. r = Inl e \<longrightarrow> svc' = svc) \<and>
         (cache svc' \<noteq> cache svc \<longrightarrow>
            (\<exists>doc. r = Inr doc) \<and>
            effs = [ConsoleInfo ep, NetworkRequest (build_request w ep auth)])"
  using assms
  by (auto simp: fetchIntrospection_def Let_def split: if_splits sum.splits)

text \<open>An entry that has expired stays in place when the refetch gets a 500.\<close>

theorem failed_fetch_keeps_cache_witness:
  "fst (fetchIntrospection
          (sample_world (answer 500 ''Internal Server Error'' JNull) 400000 400100)
          ((new_service Map.empty)\<lparr>cache :=
             [''http://localhost:4000/graphql:alice'' \<mapsto>
                \<lparr>data = sample_document, timestamp = 1200\<rparr>]\<rparr>)
          sample_endpoint (auth_of (Some ''alice'') (Some ''secret'') None))
    = Inl (Error TransportError
            ''Failed to fetch GraphQL schema: HTTP 500: Internal Server Error'') \<and>
   fst (snd (fetchIntrospection
          (sample_world (answer 500 ''Internal Server Error'' JNull) 400000 400100)
          ((new_service Map.empty)\<lparr>cache :=
             [''http://localhost:4000/graphql:alice'' \<mapsto>
                \<lparr>data = sample_document, timestamp = 1200\<rparr>]\<rparr>)
          sample_endpoint (auth_of (Some ''alice'') (Some ''secret'') None)))
    = (new_service Map.empty)\<lparr>cache :=
           [''http://localhost:4000/graphql:alice'' \<mapsto>
              \<lparr>data = sample_document, timestamp = 1200\<rparr>]\<rparr>"
proof -
  let ?run = "fetchIntrospection
     (sample_world (answer 500 ''Internal Server Error'' JNull) 400000 400100)
     ((new_service Map.empty)\<lparr>cache :=
           [''http://localhost:4000/graphql:alice'' \<mapsto>
              \<lparr>data = sample_document, timestamp = 1200\<rparr>]\<rparr>)
     sample_endpoint (auth_of (Some ''alice'') (Some ''secret'') None)"
  have d: "decimal 500 = ''500''" by code_simp
  have failed: "fst ?run = Inl (Error TransportError
            ''Failed to fetch GraphQL schema: HTTP 500: Internal Server Error'')"
    by (simp add: sample_unfold d)
  have run: "?run = (fst ?run, fst (snd ?run), snd (snd ?run))" by simp
  from failed_fetch_keeps_cache [OF run] failed show ?thesis by simp
qed

section \<open>The request\<close>

text \<open>
  C5. Every request the fetcher sends goes by POST to the endpoint and carries
  \<^verbatim>\<open>Content-Type: application/json\<close>; its \<^verbatim>\<open>Authorization\<close> header is
  \<^verbatim>\<open>Bearer <token>\<close> when a non-empty bearer token is given, whether or not a username
  and a password are given too; otherwise \<^verbatim>\<open>Basic <base64(username:password)>\<close> when
  username and password are both given and non-empty, with the runtime's base64 of the
  string \<^verbatim>\<open>username:password\<close>; otherwise there is none. It has no other header.
\<close>

theorem request_headers:
  assumes sent: "NetworkRequest req \<in> set (snd (snd (fetchIntrospection w svc ep auth)))"
  shows "url req = ep \<and> http_method req = ''POST''
       \<and> fst ` set (headers req) \<subseteq> {''Content-Type'', ''Authorization''}
       \<and> map_of (headers req) ''Content-Type'' = Some ''application/json''
       \<and> map_of (headers req) ''Authorization'' =
           (if truthy_str (bearer_token auth)
            then Some (''Bearer '' @ the (bearer_token auth))
            else if truthy_str (username auth) \<and> truthy_str (password auth)
            then Some (''Basic '' @ base64 w (the (username auth) @ '':'' @ the (password auth)))
            else None)"
proof -
  from sent have "req = build_request w ep auth"
    by (auto simp: fetchIntrospection_def Let_def split: if_splits sum.splits)
  then show ?thesis
    by (auto simp: build_request_def build_headers_def)
qed

text \<open>All three credentials, username and password only, username only.\<close>

theorem request_headers_witness:
  "map_of (headers (build_request (sample_world (Rejected None) 0 0) sample_endpoint
             (auth_of (Some ''user'') (Some ''pass'') (Some ''tok''))))
      ''Authorization'' = Some ''Bearer tok'' \<and>
   map_of (headers (build_request (sample_world (Rejected None) 0 0) sample_endpoint
             (auth_of (Some ''user'') (Some ''pass'') None)))
      ''Authorization'' = Some ''Basic dXNlcjpwYXNz'' \<and>
   map_of (headers (build_request (sample_world (Rejected None) 0 0) sample_endpoint
             (auth_of (Some ''user'') None None)))
      ''Authorization'' = None"
proof -
  let ?w = "sample_world (Rejected None) 0 0"
  let ?svc = "new_service Map.empty"
  have sent: "NetworkRequest (build_request ?w sample_endpoint (auth_of u p t))
        \<in> set (snd (snd (fetchIntrospection ?w ?svc sample_endpoint (auth_of u p t))))"
    for u p t
    by (simp add: fetchIntrospection_def new_service_def try_fetch_def sample_world_def Let_def)
  have b64: "base64 ?w ''user:pass'' = ''dXNlcjpwYXNz''"
    by (simp add: sample_world_def ascii_base64_def base64_digit_def)
  from request_headers [OF sent [of "Some ''user''" "Some ''pass''" "Some ''tok''"]]
       request_headers [OF sent [of "Some ''user''" "Some ''pass''" None]]
       request_headers [OF sent [of "Some ''user''" None None]]
  show ?thesis
    by (simp add: auth_of_def b64)
qed

section \<open>The response\<close>

lemma fetch_on_miss:
  assumes "cache_miss w svc ep auth"
  shows "fetchIntrospection w svc ep auth =
     (case try_fetch w (build_request w ep auth) of
        Inl t \<Rightarrow> (Inl (rewrap t), svc, [ConsoleInfo ep, NetworkRequest (build_request w ep auth)])
      | Inr result \<Rightarrow>
          (Inr (property result ''data''),
           svc\<lparr>cache := (cache svc)(getCacheKey ep auth \<mapsto>
                  \<lparr> data = property result ''data'', timestamp = now_on_store w \<rparr>)\<rparr>,
           [ConsoleInfo ep, NetworkRequest (build_request w ep auth)]))"
  using assms
  by (auto simp: fetchIntrospection_def cache_miss_def Let_def split: option.splits)

lemma try_fetch_ok:
  assumes "fetch w req = Responded r" and "ok r"
  shows "try_fetch w req =
    (case json r of
       Inl None \<Rightarrow> Inl NonError
     | Inl (Some m) \<Rightarrow> Inl (ErrorInstance (Error FetchFailure m))
     | Inr result \<Rightarrow>
         if nullish result
         then Inl (ErrorInstance (Error FetchFailure (cannot_read result ''errors'')))
         else if truthy (response_errors r)
         then Inl (ErrorInstance (Error GraphQLError
                (''GraphQL errors: '' @ JSON_stringify w (response_errors r))))
         else Inr result)"
  using assms by (auto simp: try_fetch_def response_errors_def split: sum.splits option.splits)

text \<open>
  C2, as the code has it. When a call goes to the network and the response has a 2xx
  status, the call fails with a GraphQL error exactly when the \<^verbatim>\<open>errors\<close> field of the
  body is truthy: anything but undefined (absent), null, false, 0 and the empty string.
  Every array is truthy, the empty one too. The message is then the fixed prefix
  followed by \<^verbatim>\<open>JSON.stringify\<close> of the field.
\<close>

theorem graphql_error_iff_errors_truthy:
  assumes miss: "cache_miss w svc ep auth"
    and resp: "fetch w (build_request w ep auth) = Responded r"
    and st: "200 \<le> status r" "status r < 300"
  shows "((\<exists>m. fst (fetchIntrospection w svc ep auth) = Inl (Error GraphQLError m))
            \<longleftrightarrow> response_errors r \<notin> {JUndefined, JNull, JBool False, JNum 0, JStr []})
       \<and> (response_errors r \<notin> {JUndefined, JNull, JBool False, JNum 0, JStr []} \<longrightarrow>
            fst (fetchIntrospection w svc ep auth) =
              Inl (Error GraphQLError
                (''Failed to fetch GraphQL schema: GraphQL errors: ''
                   @ JSON_stringify w (response_errors r))))"
proof -
  have okr: "ok r" using st by (simp add: ok_def)
  note tf = try_fetch_ok [OF resp okr]
  note fm = fetch_on_miss [OF miss]
  show ?thesis
  proof (cases "json r")
    case (Inl t)
    then show ?thesis
      by (cases t) (simp_all add: fm tf response_errors_def)
  next
    case (Inr result)
    show ?thesis
    proof (cases "nullish result")
      case True
      with Inr show ?thesis
        by (simp add: fm tf response_errors_def property_nullish)
    next
      case False
      with Inr truthy_iff [of "response_errors r"] show ?thesis
        by (auto simp: fm tf)
    qed
  qed
qed

text \<open>A 200 response whose body is \<^verbatim>\<open>{"errors": [{"message": "boom"}]}\<close>.\<close>

theorem graphql_error_iff_errors_truthy_witness:
  "fst (fetchIntrospection
          (sample_world
             (answer 200 ''OK''
                (JObj [(''errors'', JArr [JObj [(''message'', JStr ''boom'')]])])) 0 0)
          (new_service Map.empty) sample_endpoint (auth_of None None None))
   = Inl (Error GraphQLError
       (''Failed to fetch GraphQL schema: GraphQL errors: [{'' @ dquote @ ''message'' @ dquote
          @ '':'' @ dquote @ ''boom'' @ dquote @ ''}]''))"
  using graphql_error_iff_errors_truthy
    [of "sample_world
             (answer 200 ''OK''
                (JObj [(''errors'', JArr [JObj [(''message'', JStr ''boom'')]])])) 0 0"
        "new_service Map.empty" sample_endpoint "auth_of None None None"
        "\<lparr> status = 200, statusText = ''OK'',
           json = Inr (JObj [(''errors'', JArr [JObj [(''message'', JStr ''boom'')]])]) \<rparr>"]
  by (simp add: cache_miss_def new_service_def sample_world_def answer_def response_errors_def
        quoted_def dquote_def)

text \<open>
  C2, as the claim has it, fails: a 200 response whose body is
  \<^verbatim>\<open>{"errors": [], "data": ...}\<close> makes the call fail with a GraphQL error.
\<close>

theorem empty_errors_array_counterexample:
  "fst (fetchIntrospection
          (sample_world
             (answer 200 ''OK'' (JObj [(''errors'', JArr []), (''data'', sample_document)])) 0 0)
          (new_service Map.empty) sample_endpoint (auth_of None None None))
   = Inl (Error GraphQLError ''Failed to fetch GraphQL schema: GraphQL errors: []'')"
  by (simp add: sample_unfold)

section \<open>Configuration\<close>

text \<open>
  C3. The constructor reads one variable of the environment, \<^verbatim>\<open>BASE_URL\<close>, for the
  default endpoint. The cache duration is the constant 300000 ms in every environment:
  with \<^verbatim>\<open>CACHE_DURATION_MS=600000\<close> set, an entry of age 400000 ms is not valid.
\<close>

theorem cache_duration_is_fixed:
  "CACHE_DURATION (new_service env) = 300000 \<and>
   \<not> isValidCache (new_service [''CACHE_DURATION_MS'' \<mapsto> ''600000'']) 400000
       \<lparr> data = doc, timestamp = 0 \<rparr> \<and>
   DEFAULT_ENDPOINT (new_service [''BASE_URL'' \<mapsto> ''http://localhost:4000/graphql''])
     = ''http://localhost:4000/graphql''"
  by (simp add: new_service_def isValidCache_def)

section \<open>Type references\<close>

lemma formatType_falsy: "\<not> truthy ty \<Longrightarrow> formatType ty = JNull"
  by (simp add: formatType.simps)

lemma formatType_non_null:
  "truthy ty \<Longrightarrow> property ty ''kind'' = JStr ''NON_NULL'' \<Longrightarrow>
   formatType ty = JObj [(''kind'', JStr ''NON_NULL''),
                         (''of_type'', formatType (property ty ''ofType'')),
                         (''is_required'', JBool True)]"
  by (subst formatType.simps) simp

lemma formatType_list:
  "truthy ty \<Longrightarrow> property ty ''kind'' = JStr ''LIST'' \<Longrightarrow>
   formatType ty = JObj [(''kind'', JStr ''LIST''),
                         (''of_type'', formatType (property ty ''ofType'')),
                         (''is_list'', JBool True)]"
  by (subst formatType.simps) simp

lemma formatType_terminal:
  "truthy ty \<Longrightarrow> property ty ''kind'' \<noteq> JStr ''NON_NULL'' \<Longrightarrow>
   property ty ''kind'' \<noteq> JStr ''LIST'' \<Longrightarrow>
   formatType ty = JObj [(''kind'', property ty ''kind''),
                         (''name'', property ty ''name''),
                         (''description'', property ty ''description'')]"
  by (subst formatType.simps) simp

lemma is_wrapper_formatType: "is_wrapper (formatType ty) \<longleftrightarrow> is_wrapper ty"
  by (subst formatType.simps) (auto simp: is_wrapper_def)

lemma wrapper_kind_formatType:
  "is_wrapper ty \<Longrightarrow> property (formatType ty) ''kind'' = property ty ''kind''"
  by (subst formatType.simps) (auto simp: is_wrapper_def)

lemma wrapper_inner_formatType:
  "is_wrapper ty \<Longrightarrow> property (formatType ty) ''of_type'' = formatType (property ty ''ofType'')"
  by (subst formatType.simps) (auto simp: is_wrapper_def)

lemma chain_formatType:
  "wrapper_chain ''of_type'' (formatType ty) = wrapper_chain ''ofType'' ty"
proof (induction ty rule: formatType.induct)
  case (1 ty)
  show ?case
  proof (cases "is_wrapper ty")
    case True
    then have ih: "wrapper_chain ''of_type'' (formatType (property ty ''ofType''))
        = wrapper_chain ''ofType'' (property ty ''ofType'')"
      using "1.IH" by (auto simp: is_wrapper_def)
    show ?thesis
      using True ih
      by (subst wrapper_chain.simps, subst (2) wrapper_chain.simps)
         (simp add: is_wrapper_formatType wrapper_kind_formatType wrapper_inner_formatType)
  next
    case False
    then show ?thesis
      by (subst wrapper_chain.simps, subst (2) wrapper_chain.simps)
         (simp add: is_wrapper_formatType)
  qed
qed

lemma innermost_formatType:
  "innermost ''of_type'' (formatType ty) = formatType (innermost ''ofType'' ty)"
proof (induction ty rule: formatType.induct)
  case (1 ty)
  show ?case
  proof (cases "is_wrapper ty")
    case True
    then have ih: "innermost ''of_type'' (formatType (property ty ''ofType''))
        = formatType (innermost ''ofType'' (property ty ''ofType''))"
      using "1.IH" by (auto simp: is_wrapper_def)
    show ?thesis
      using True ih
      by (subst innermost.simps, subst (2) innermost.simps)
         (simp add: is_wrapper_formatType wrapper_inner_formatType)
  next
    case False
    then show ?thesis
      by (subst innermost.simps, subst (2) innermost.simps)
         (simp add: is_wrapper_formatType)
  qed
qed

text \<open>
  C6. \<open>formatType\<close> gives null on null, on undefined and on every other falsy value; on
  a reference of kind \<^verbatim>\<open>NON_NULL\<close> the object \<^verbatim>\<open>{kind, of_type, is_required: true}\<close> and
  on one of kind \<^verbatim>\<open>LIST\<close> the object \<^verbatim>\<open>{kind, of_type, is_list: true}\<close>, with the
  formatted inner reference as \<^verbatim>\<open>of_type\<close>; on any other reference the object
  \<^verbatim>\<open>{kind, name, description}\<close> of its own three properties. Nesting is kept as it
  is: the result has the wrapper kinds of the reference in the same order, and what its
  last wrapper wraps is the formatted innermost reference.
\<close>

theorem formatType_shapes:
  "(\<not> truthy ty \<longrightarrow> formatType ty = JNull)
   \<and> formatType JNull = JNull \<and> formatType JUndefined = JNull
   \<and> (truthy ty \<and> property ty ''kind'' = JStr ''NON_NULL'' \<longrightarrow>
        formatType ty = JObj [(''kind'', JStr ''NON_NULL''),
                              (''of_type'', formatType (property ty ''ofType'')),
                              (''is_required'', JBool True)])
   \<and> (truthy ty \<and> property ty ''kind'' = JStr ''LIST'' \<longrightarrow>
        formatType ty = JObj [(''kind'', JStr ''LIST''),
                              (''of_type'', formatType (property ty ''ofType'')),
                              (''is_list'', JBool True)])
   \<and> (truthy ty \<and> property ty ''kind'' \<noteq> JStr ''NON_NULL''
         \<and> property ty ''kind'' \<noteq> JStr ''LIST'' \<longrightarrow>
        formatType ty = JObj [(''kind'', property ty ''kind''),
                              (''name'', property ty ''name''),
                              (''description'', property ty ''description'')])
   \<and> wrapper_chain ''of_type'' (formatType ty) = wrapper_chain ''ofType'' ty
   \<and> innermost ''of_type'' (formatType ty) = formatType (innermost ''ofType'' ty)"
  using formatType_falsy [of ty] formatType_falsy [of JNull] formatType_falsy [of JUndefined]
    formatType_non_null [of ty] formatType_list [of ty] formatType_terminal [of ty]
    chain_formatType [of ty] innermost_formatType [of ty]
  by simp

text \<open>The reference \<^verbatim>\<open>NON_NULL\<close> of \<^verbatim>\<open>LIST\<close> of the scalar \<^verbatim>\<open>Int\<close>. The scalar has no
  description, so the result's \<^verbatim>\<open>description\<close> is undefined and is gone once the result
  is serialised.\<close>

theorem formatType_shapes_witness:
  "formatType sample_type_ref =
     JObj [(''kind'', JStr ''NON_NULL''),
           (''of_type'',
              JObj [(''kind'', JStr ''LIST''),
                    (''of_type'', JObj [(''kind'', JStr ''SCALAR''), (''name'', JStr ''Int''),
                                        (''description'', JUndefined)]),
                    (''is_list'', JBool True)]),
           (''is_required'', JBool True)]
   \<and> as_serialised (formatType sample_type_ref) =
     JObj [(''kind'', JStr ''NON_NULL''),
           (''of_type'',
              JObj [(''kind'', JStr ''LIST''),
                    (''of_type'', JObj [(''kind'', JStr ''SCALAR''), (''name'', JStr ''Int'')]),
                    (''is_list'', JBool True)]),
           (''is_required'', JBool True)]
   \<and> wrapper_chain ''of_type'' (formatType sample_type_ref) = [JStr ''NON_NULL'', JStr ''LIST'']"
proof -
  let ?scalar = "JObj [(''kind'', JStr ''SCALAR''), (''name'', JStr ''Int'')]"
  let ?list = "JObj [(''kind'', JStr ''LIST''), (''ofType'', ?scalar)]"
  have scalar: "formatType ?scalar =
      JObj [(''kind'', JStr ''SCALAR''), (''name'', JStr ''Int''), (''description'', JUndefined)]"
    using formatType_shapes [of ?scalar] by simp
  have list: "formatType ?list =
      JObj [(''kind'', JStr ''LIST''), (''of_type'', formatType ?scalar), (''is_list'', JBool True)]"
    using formatType_shapes [of ?list] by simp
  have non_null: "formatType sample_type_ref =
      JObj [(''kind'', JStr ''NON_NULL''), (''of_type'', formatType ?list),
            (''is_required'', JBool True)]"
    using formatType_shapes [of sample_type_ref] by (simp add: sample_type_ref_def)
  have "wrapper_chain ''ofType'' sample_type_ref = [JStr ''NON_NULL'', JStr ''LIST'']"
    by (simp add: sample_type_ref_def wrapper_chain.simps is_wrapper_def)
  with formatType_shapes [of sample_type_ref]
  have chain: "wrapper_chain ''of_type'' (formatType sample_type_ref)
      = [JStr ''NON_NULL'', JStr ''LIST'']"
    by simp
  show ?thesis
    by (simp add: chain) (simp add: non_null list scalar)
qed

section \<open>Filtering types\<close>

lemma ascii_toLowerCase_empty: "(ascii_toLowerCase s = []) = (s = [])"
  by (simp add: ascii_toLowerCase_def)

lemma is_string_cases: "is_string v \<Longrightarrow> (\<And>s. v = JStr s \<Longrightarrow> P) \<Longrightarrow> P"
  by (cases v) auto

lemma well_named_not_nullish: "well_named ty \<Longrightarrow> \<not> nullish ty"
  by (auto simp: well_named_def nullish_def)

lemma matches_search_pure:
  assumes "well_named x" and "s \<noteq> []"
    and lower: "\<And>t. (toLowerCase w t = []) = (t = [])"
  shows "matches_search w var (toLowerCase w s) x =
           Inr (contains_ci w (property x ''name'') s
                \<or> contains_ci w (property x ''description'') s)"
proof -
  from assms(1) obtain n where n: "property x ''name'' = JStr n"
    by (auto simp: well_named_def elim: is_string_cases)
  from assms(1) have nn: "\<not> nullish x" by (rule well_named_not_nullish)
  have nil: "toLowerCase w [] = []" by (simp add: lower)
  from assms(1) consider (str) d where "property x ''description'' = JStr d"
    | (falsy) "\<not> is_string (property x ''description'')" "\<not> truthy (property x ''description'')"
    by (auto simp: well_named_def elim: is_string_cases)
  then show ?thesis
  proof cases
    case str
    then show ?thesis
      using assms(2)
      by (cases "d = []") (auto simp: matches_search_def get_ok nn n contains_ci_def lower nil)
  next
    case falsy
    then show ?thesis
      by (auto simp: matches_search_def get_ok nn n contains_ci_def)
  qed
qed

lemma not_internal_pure:
  assumes "well_named ty"
  shows "and_then (get ty ''name'') (\<lambda>n.
           and_then (string_receiver ''type.name'' ''startsWith'' n) (\<lambda>s.
             Inr (\<not> startsWith s ''__'')))
         = Inr (\<not> startsWith (string_of (property ty ''name'')) ''__'')"
proof -
  from assms obtain n where n: "property ty ''name'' = JStr n"
    by (auto simp: well_named_def elim: is_string_cases)
  from assms have nn: "\<not> nullish ty" by (rule well_named_not_nullish)
  show ?thesis by (simp add: get_ok nn n)
qed

lemma filterTypes_on_selected:
  assumes types: "property (property doc ''__schema'') ''types'' = JArr declared"
    and named: "\<forall>ty\<in>set declared. well_named ty"
    and lower: "\<And>t. (toLowerCase w t = []) = (t = [])"
  shows "filterTypes_on w ep doc options =
     and_then (Array_map (formatTypeItem (truthy_bool (detailed options)))
                 (filter (type_selected w options) declared))
       (\<lambda>formattedTypes.
          Inr (JObj [(''success'', JBool True), (''endpoint'', JStr ep),
                     (''search_term'', of_string_opt (search options)),
                     (''kind_filter'', of_string_opt (kind options)),
                     (''types'', JArr formattedTypes),
                     (''total'', JNum (int (length formattedTypes)))]))"
proof -
  let ?schema = "property doc ''__schema''"
  from types have schema: "\<not> nullish ?schema"
    by (intro not_nullish_property [of ?schema "''types''"]) simp
  then have doc: "\<not> nullish doc"
    by (intro not_nullish_property [of doc "''__schema''"]) (auto simp: nullish_def)
  let ?p0 = "\<lambda>ty. \<not> startsWith (string_of (property ty ''name'')) ''__''"
  have f0: "Array_filter (\<lambda>ty. and_then (get ty ''name'') (\<lambda>n.
                   and_then (string_receiver ''type.name'' ''startsWith'' n) (\<lambda>s.
                     Inr (\<not> startsWith s ''__'')))) declared = Inr (filter ?p0 declared)"
    using named by (intro Array_filter_pure) (simp add: not_internal_pure)
  let ?types1 = "if truthy_str (kind options)
              then filter (\<lambda>ty. strict_eq (property ty ''kind'') (JStr (the (kind options))))
                     (filter ?p0 declared)
              else filter ?p0 declared"
  have named1: "\<forall>ty\<in>set ?types1. well_named ty"
    using named by auto
  have f2: "truthy_str (search options) \<Longrightarrow>
       Array_filter (matches_search w ''type'' (toLowerCase w (the (search options)))) ?types1
       = Inr (filter (\<lambda>x. contains_ci w (property x ''name'') (the (search options))
                         \<or> contains_ci w (property x ''description'') (the (search options)))
                ?types1)"
    using named1
    by (intro Array_filter_pure) (cases "search options"; simp add: matches_search_pure lower)
  have sel: "(if truthy_str (search options)
              then filter (\<lambda>x. contains_ci w (property x ''name'') (the (search options))
                         \<or> contains_ci w (property x ''description'') (the (search options)))
                     ?types1
              else ?types1) = filter (type_selected w options) declared"
    by (auto simp: type_selected_def intro: filter_cong)
  show ?thesis
    unfolding filterTypes_on_def
    by (simp add: get_ok doc schema types f0 Let_def f2 sel [symmetric]
          del: strict_eq_str)
qed

lemma formatTypeItem_summary:
  "formatTypeItem False ty =
     Inr (JObj [(''name'', property ty ''name''), (''kind'', property ty ''kind''),
                (''description'', property ty ''description'')])"
  by (simp add: formatTypeItem_def)

lemma Array_map_summary:
  "Array_map (formatTypeItem False) xs =
     Inr (map (\<lambda>ty. JObj [(''name'', property ty ''name''), (''kind'', property ty ''kind''),
                             (''description'', property ty ''description'')]) xs)"
  by (induction xs) (simp_all add: formatTypeItem_summary)

lemma formatTypeItem_name:
  "formatTypeItem d ty = Inr item \<Longrightarrow> property item ''name'' = property ty ''name''"
  by (cases d) (auto simp: formatTypeItem_def Let_def and_then_Inr)

lemma Array_map_names:
  "Array_map (formatTypeItem d) xs = Inr ys \<Longrightarrow>
   map (\<lambda>item. property item ''name'') ys = map (\<lambda>ty. property ty ''name'') xs"
  by (induction xs arbitrary: ys) (auto simp: and_then_Inr dest: formatTypeItem_name)

lemma fst_filterTypes:
  "fst (filterTypes w svc options) =
     and_then (fst (fetchIntrospection w svc (resolve_endpoint svc options) options))
       (\<lambda>d. filterTypes_on w (resolve_endpoint svc options) d options)"
  by (simp add: filterTypes_def Let_def split: prod.splits)

text \<open>
  C7. On a document whose declared types are well named, \<open>filter_types\<close> formats
  exactly the declared types that are selected, in their order: those that are no
  introspection type and have the given kind and match the search term, all three at
  once. Letter case is set aside by the runtime's \<^verbatim>\<open>toLowerCase\<close>, of which the proof
  uses only that it gives the empty string on the empty string and on no other. Without \<^verbatim>\<open>detailed\<close> the call succeeds and lists their name, kind and
  description; with it the call returns what formatting the selected types gives, and
  whenever it succeeds the names in the list are the names of the selected types and the
  total is their number.
\<close>

theorem filterTypes_conjunction:
  assumes fetched:
      "fst (fetchIntrospection w svc (resolve_endpoint svc options) options) = Inr doc"
    and types: "property (property doc ''__schema'') ''types'' = JArr declared"
    and named: "\<forall>ty\<in>set declared. well_named ty"
    and lower: "\<And>t. (toLowerCase w t = []) = (t = [])"
  shows "fst (filterTypes w svc options) =
           and_then (Array_map (formatTypeItem (truthy_bool (detailed options)))
                       (filter (type_selected w options) declared))
             (\<lambda>formattedTypes.
                Inr (JObj [(''success'', JBool True),
                           (''endpoint'', JStr (resolve_endpoint svc options)),
                           (''search_term'', of_string_opt (search options)),
                           (''kind_filter'', of_string_opt (kind options)),
                           (''types'', JArr formattedTypes),
                           (''total'', JNum (int (length formattedTypes)))]))
       \<and> (\<not> truthy_bool (detailed options) \<longrightarrow>
            fst (filterTypes w svc options) =
              Inr (JObj [(''success'', JBool True),
                         (''endpoint'', JStr (resolve_endpoint svc options)),
                         (''search_term'', of_string_opt (search options)),
                         (''kind_filter'', of_string_opt (kind options)),
                         (''types'',
                          JArr (map (\<lambda>ty. JObj [(''name'', property ty ''name''),
                                                 (''kind'', property ty ''kind''),
                                                 (''description'', property ty ''description'')])
                                  (filter (type_selected w options) declared))),
                         (''total'',
                          JNum (int (length (filter (type_selected w options) declared))))]))
       \<and> (\<forall>r. fst (filterTypes w svc options) = Inr r \<longrightarrow>
            map (\<lambda>item. property item ''name'') (elements (property r ''types''))
              = map (\<lambda>ty. property ty ''name'') (filter (type_selected w options) declared)
            \<and> property r ''total''
              = JNum (int (length (filter (type_selected w options) declared))))"
proof -
  note run = filterTypes_on_selected [OF types named lower, of "resolve_endpoint svc options" options]
  have a: "fst (filterTypes w svc options) =
           and_then (Array_map (formatTypeItem (truthy_bool (detailed options)))
                       (filter (type_selected w options) declared))
             (\<lambda>formattedTypes.
                Inr (JObj [(''success'', JBool True),
                           (''endpoint'', JStr (resolve_endpoint svc options)),
                           (''search_term'', of_string_opt (search options)),
                           (''kind_filter'', of_string_opt (kind options)),
                           (''types'', JArr formattedTypes),
                           (''total'', JNum (int (length formattedTypes)))]))"
    by (simp add: fst_filterTypes fetched run)
  show ?thesis
    by (auto simp: a Array_map_summary and_then_Inr dest: Array_map_names Array_map_length)
qed

text \<open>Kind \<^verbatim>\<open>SCALAR\<close> and search term \<^verbatim>\<open>ID\<close> on the sample schema: the scalar
  \<^verbatim>\<open>String\<close> has the kind only, the object \<^verbatim>\<open>Widget\<close> matches the term only (in its
  description), and the scalar \<^verbatim>\<open>ID\<close> alone is returned.\<close>

theorem filterTypes_conjunction_witness:
  "fst (filterTypes (serving sample_document) (new_service Map.empty)
          (type_options (Some ''ID'') (Some ''SCALAR'') None))
     = Inr (JObj [(''success'', JBool True), (''endpoint'', JStr sample_endpoint),
                  (''search_term'', JStr ''ID''), (''kind_filter'', JStr ''SCALAR''),
                  (''types'', JArr [JObj [(''name'', JStr ''ID''), (''kind'', JStr ''SCALAR''),
                                          (''description'', JStr ''An id'')]]),
                  (''total'', JNum 1)])"
proof -
  let ?opts = "type_options (Some ''ID'') (Some ''SCALAR'') None"
  let ?declared = "elements (property sample_schema ''types'')"
  have ep: "endpoint ?opts = Some sample_endpoint"
    by (simp add: type_options_def)
  have types: "property (property sample_document ''__schema'') ''types'' = JArr ?declared"
    by (simp add: sample_document_def sample_schema_def)
  have named: "\<forall>ty\<in>set ?declared. well_named ty"
    by (simp add: sample_schema_def well_named_def)
  have lower: "(toLowerCase (serving sample_document) t = []) = (t = [])" for t
    by (simp add: serving_def sample_world_def ascii_toLowerCase_empty)
  have sel: "filter (type_selected (serving sample_document) ?opts) ?declared
      = [JObj [(''kind'', JStr ''SCALAR''), (''name'', JStr ''ID''),
               (''description'', JStr ''An id'')]]"
    by code_simp
  from filterTypes_conjunction [OF serving_fetches [OF ep] types named lower] sel
  show ?thesis
    by (simp add: type_options_def resolve_endpoint_def formatTypeItem_def)
qed

section \<open>Roots without fields\<close>

lemma filterRootFields_lacking:
  assumes "\<not> nullish doc" and "lacks_root_fields root_key (property doc ''__schema'')"
  shows "filterRootFields w root_key list_key ep doc options = Inr (empty_result ep list_key)"
proof -
  let ?schema = "property doc ''__schema''"
  from assms(2) have schema: "\<not> nullish ?schema"
    by (simp add: lacks_root_fields_def)
  show ?thesis
  proof (cases "truthy (property ?schema root_key)")
    case False
    then show ?thesis
      by (simp add: filterRootFields_def get_ok assms(1) schema)
  next
    case True
    with assms(2) obtain ts where ts: "property ?schema ''types'' = JArr ts"
      and ok: "list_all (\<lambda>t. \<not> nullish t) ts"
      and nf: "case found_type (property ?schema root_key) ts of
                 None \<Rightarrow> True | Some t \<Rightarrow> \<not> truthy (property t ''fields'')"
      by (auto simp: lacks_root_fields_def split: jsval.splits)
    show ?thesis
      using True nf
      by (auto simp: filterRootFields_def get_ok assms(1) schema ts find_by_name [OF ok]
            found_type_def split: option.splits)
  qed
qed

lemma fst_filterQueries:
  "fst (filterQueries w svc options) =
     and_then (fst (fetchIntrospection w svc (resolve_endpoint svc options) options))
       (\<lambda>d. filterQueries_on w (resolve_endpoint svc options) d options)"
  by (simp add: filterQueries_def Let_def split: prod.splits)

lemma fst_filterMutations:
  "fst (filterMutations w svc options) =
     and_then (fst (fetchIntrospection w svc (resolve_endpoint svc options) options))
       (\<lambda>d. filterMutations_on w (resolve_endpoint svc options) d options)"
  by (simp add: filterMutations_def Let_def split: prod.splits)

text \<open>
  C8. When the fetched document's schema has no field list for the query root (no
  query root, no declared type of its name, or no field list on that type),
  \<open>filter_queries\<close> succeeds with \<^verbatim>\<open>success: true\<close>, an empty \<^verbatim>\<open>queries\<close> list and
  \<^verbatim>\<open>total: 0\<close>; and so does \<open>filter_mutations\<close> for the mutation root, with an empty
  \<^verbatim>\<open>mutations\<close> list.
\<close>

theorem missing_root_gives_empty_list:
  assumes fetched:
      "fst (fetchIntrospection w svc (resolve_endpoint svc options) options) = Inr doc"
    and present: "\<not> nullish doc"
  shows "(lacks_root_fields ''queryType'' (property doc ''__schema'') \<longrightarrow>
            fst (filterQueries w svc options) =
              Inr (JObj [(''success'', JBool True),
                         (''endpoint'', JStr (resolve_endpoint svc options)),
                         (''queries'', JArr []), (''total'', JNum 0)]))
       \<and> (lacks_root_fields ''mutationType'' (property doc ''__schema'') \<longrightarrow>
            fst (filterMutations w svc options) =
              Inr (JObj [(''success'', JBool True),
                         (''endpoint'', JStr (resolve_endpoint svc options)),
                         (''mutations'', JArr []), (''total'', JNum 0)]))"
  by (simp add: fst_filterQueries fst_filterMutations fetched filterQueries_on_def
        filterMutations_on_def empty_result_def filterRootFields_lacking [OF present])

text \<open>Queries on the schema whose query type has no field list, mutations on the
  sample schema, which has no mutation root.\<close>

theorem missing_root_gives_empty_list_witness:
  "fst (filterQueries (serving bare_document) (new_service Map.empty)
          (filter_options (Some ''user'') (Some True)))
     = Inr (JObj [(''success'', JBool True), (''endpoint'', JStr sample_endpoint),
                  (''queries'', JArr []), (''total'', JNum 0)])
   \<and> fst (filterMutations (serving sample_document) (new_service Map.empty)
          (filter_options None None))
     = Inr (JObj [(''success'', JBool True), (''endpoint'', JStr sample_endpoint),
                  (''mutations'', JArr []), (''total'', JNum 0)])"
proof -
  have ep: "endpoint (filter_options s d) = Some sample_endpoint" for s d
    by (simp add: filter_options_def)
  have r: "resolve_endpoint (new_service Map.empty) (filter_options s d) = sample_endpoint"
    for s d
    by (simp add: resolve_endpoint_def filter_options_def)
  have q: "lacks_root_fields ''queryType'' (property bare_document ''__schema'')"
    by (simp add: bare_document_def lacks_root_fields_def found_type_def nullish_def)
  have m: "lacks_root_fields ''mutationType'' (property sample_document ''__schema'')"
    by (simp add: sample_document_def sample_schema_def lacks_root_fields_def nullish_def)
  have n1: "\<not> nullish bare_document" by (simp add: bare_document_def nullish_def)
  have n2: "\<not> nullish sample_document" by (simp add: sample_document_def nullish_def)
  from missing_root_gives_empty_list [OF serving_fetches [OF ep] n1,
         of "Some ''user''" "Some True"] q
       missing_root_gives_empty_list [OF serving_fetches [OF ep] n2, of None None] m
  show ?thesis by (simp add: r)
qed

section \<open>Field details\<close>

lemma type_fault_Inr [simp]: "type_fault (Inr x)"
  by (simp add: type_fault_def)

lemma type_fault_and_then:
  "type_fault m \<Longrightarrow> (\<And>x. type_fault (f x)) \<Longrightarrow> type_fault (and_then m f)"
  by (cases m) (auto simp: type_fault_def)

lemma type_fault_get [simp]: "type_fault (get v k)"
  by (simp add: type_fault_def get_def)

lemma type_fault_array_receiver [simp]: "type_fault (array_receiver expr m v)"
  by (cases v) (simp_all add: type_fault_def not_a_function_def)

lemma type_fault_Array_map:
  "(\<And>x. type_fault (f x)) \<Longrightarrow> type_fault (Array_map f xs)"
  by (induction xs) (auto intro!: type_fault_and_then)

lemma type_fault_Array_find:
  "(\<And>x. type_fault (p x)) \<Longrightarrow> type_fault (Array_find p xs)"
proof (induction xs)
  case Nil
  show ?case by simp
next
  case (Cons x xs)
  show ?case
    unfolding Array_find.simps
    by (rule type_fault_and_then) (auto intro: Cons)
qed

lemma type_fault_formatArguments [simp]: "type_fault (formatArguments args)"
  unfolding formatArguments_def formatArgument_def
  by (auto intro!: type_fault_and_then type_fault_Array_map)

lemma type_fault_find_by_name [simp]:
  "type_fault (Array_find (\<lambda>ty. and_then (get ty ''name'') (\<lambda>n. Inr (P n))) xs)"
  by (auto intro!: type_fault_Array_find type_fault_and_then)

lemma type_fault_not_found:
  "type_fault m \<Longrightarrow> m = Inl (Error NotFoundError msg) \<Longrightarrow> False"
  by (simp add: type_fault_def)

lemma no_not_found:
  "get v k \<noteq> Inl (Error NotFoundError msg)"
  "array_receiver expr m' v \<noteq> Inl (Error NotFoundError msg)"
  "Array_find (\<lambda>ty. and_then (get ty ''name'') (\<lambda>n. Inr (P n))) xs
     \<noteq> Inl (Error NotFoundError msg)"
  "formatArguments args \<noteq> Inl (Error NotFoundError msg)"
  using type_fault_not_found [OF type_fault_get]
    type_fault_not_found [OF type_fault_array_receiver]
    type_fault_not_found [OF type_fault_find_by_name]
    type_fault_not_found [OF type_fault_formatArguments]
  by blast+

lemma not_found_messages:
  assumes "getFieldDetails_on ep doc options = Inl (Error NotFoundError m)"
  shows "m \<in> {no_root_message (operation_name options),
              no_fields_message (operation_name options),
              field_not_found_message (field_name options) (operation_name options)}"
  using assms
  unfolding getFieldDetails_on_def Let_def operation_name_def
  by (auto simp: and_then_Inl no_not_found split: if_splits)

lemma messages_distinct:
  "no_root_message op \<noteq> no_fields_message op
   \<and> no_root_message op \<noteq> field_not_found_message f op
   \<and> no_fields_message op \<noteq> field_not_found_message f op"
proof -
  have "length (no_root_message op) \<noteq> length (no_fields_message op)"
    by (simp add: no_root_message_def no_fields_message_def)
  moreover have "hd (no_root_message op) \<noteq> hd (field_not_found_message f op)"
    by (simp add: no_root_message_def field_not_found_message_def)
  moreover have "last (no_fields_message op) \<noteq> last (field_not_found_message f op)"
    by (simp add: no_fields_message_def field_not_found_message_def)
  ultimately show ?thesis by metis
qed

lemma fst_getFieldDetails:
  "fst (getFieldDetails w svc options) =
     and_then (fst (fetchIntrospection w svc (resolve_endpoint svc options) options))
       (\<lambda>d. getFieldDetails_on (resolve_endpoint svc options) d options)"
  by (simp add: getFieldDetails_def Let_def split: prod.splits)

lemma getFieldDetails_on_start:
  assumes "\<not> nullish (property doc ''__schema'')"
  shows "getFieldDetails_on ep doc options =
    (let operationType = operation_name options;
         schema = property doc ''__schema'';
         rootType = property schema (root_key_of operationType)
     in if \<not> truthy rootType
        then Inl (Error NotFoundError (no_root_message operationType))
        else
          and_then (array_receiver ''introspectionData.__schema.types'' ''find''
                      (property schema ''types'')) (\<lambda>types.
          and_then (Array_find (\<lambda>ty. and_then (get ty ''name'') (\<lambda>n.
                        Inr (strict_eq n (property rootType ''name'')))) types) (\<lambda>typeData.
            if \<not> truthy typeData \<or> \<not> truthy (property typeData ''fields'')
            then Inl (Error NotFoundError (no_fields_message operationType))
            else
              and_then (array_receiver ''typeData.fields'' ''find''
                          (property typeData ''fields'')) (\<lambda>candidates.
              and_then (Array_find (\<lambda>f. and_then (get f ''name'') (\<lambda>n.
                            Inr (strict_eq n (JStr (field_name options))))) candidates)
                (\<lambda>field.
                if \<not> truthy field
                then Inl (Error NotFoundError
                            (field_not_found_message (field_name options) operationType))
                else
                  and_then (formatArguments (property field ''args'')) (\<lambda>args.
                    Inr (JObj [(''success'', JBool True), (''endpoint'', JStr ep),
                               (''operation_type'', JStr operationType),
                               (''field'', JObj
                                  [(''name'', property field ''name''),
                                   (''description'', property field ''description''),
                                   (''arguments'', args),
                                   (''return_type'', formatType (property field ''type'')),
                                   (''deprecated'', property field ''isDeprecated''),
                                   (''deprecation_reason'',
                                    property field ''deprecationReason'')])])))))))"
proof -
  from assms have doc: "\<not> nullish doc"
    by (intro not_nullish_property [of doc "''__schema''"]) (auto simp: nullish_def)
  show ?thesis
    unfolding getFieldDetails_on_def operation_name_def root_key_of_def
    by (simp add: get_ok doc assms Let_def del: strict_eq_str)
qed

lemma no_root:
  assumes "\<not> nullish (property doc ''__schema'')"
    and "\<not> truthy (property (property doc ''__schema'') (root_key_of (operation_name options)))"
  shows "getFieldDetails_on ep doc options =
           Inl (Error NotFoundError (no_root_message (operation_name options)))"
  using assms(2) by (simp add: getFieldDetails_on_start [OF assms(1)] Let_def)

lemma no_fields:
  assumes "truthy (property (property doc ''__schema'') (root_key_of (operation_name options)))"
    and "lacks_root_fields (root_key_of (operation_name options)) (property doc ''__schema'')"
  shows "getFieldDetails_on ep doc options =
           Inl (Error NotFoundError (no_fields_message (operation_name options)))"
proof -
  let ?schema = "property doc ''__schema''"
  let ?key = "root_key_of (operation_name options)"
  from assms(2) have schema: "\<not> nullish ?schema"
    by (simp add: lacks_root_fields_def)
  from assms obtain ts where ts: "property ?schema ''types'' = JArr ts"
    and ok: "list_all (\<lambda>t. \<not> nullish t) ts"
    and nf: "case found_type (property ?schema ?key) ts of
               None \<Rightarrow> True | Some t \<Rightarrow> \<not> truthy (property t ''fields'')"
    by (auto simp: lacks_root_fields_def split: jsval.splits)
  show ?thesis
    using assms(1) nf
    by (auto simp: getFieldDetails_on_start [OF schema] Let_def ts find_by_name [OF ok]
          found_type_def split: option.splits)
qed

lemma field_not_found:
  assumes fs: "root_field_list (root_key_of (operation_name options)) (property doc ''__schema'')
                 = Some fs"
    and ok: "list_all (\<lambda>f. \<not> nullish f) fs"
    and none: "find (\<lambda>f. strict_eq (property f ''name'') (JStr (field_name options))) fs = None"
  shows "getFieldDetails_on ep doc options =
           Inl (Error NotFoundError
                  (field_not_found_message (field_name options) (operation_name options)))"
proof -
  let ?schema = "property doc ''__schema''"
  let ?key = "root_key_of (operation_name options)"
  from fs have root: "truthy (property ?schema ?key)"
    by (auto simp: root_field_list_def split: if_splits)
  then have schema: "\<not> nullish ?schema"
    by (intro not_nullish_property [of ?schema ?key]) auto
  from fs root obtain ts t where ts: "property ?schema ''types'' = JArr ts"
    and tsok: "list_all (\<lambda>t. \<not> nullish t) ts"
    and t: "found_type (property ?schema ?key) ts = Some t"
    and tf: "property t ''fields'' = JArr fs"
    by (auto simp: root_field_list_def split: if_splits jsval.splits option.splits)
  from tf have tt: "truthy t"
    by (cases t) auto
  show ?thesis
    using root t tt none
    by (simp add: getFieldDetails_on_start [OF schema] Let_def ts find_by_name [OF tsok]
          find_by_name [OF ok] found_type_def tf del: strict_eq_str)
qed

text \<open>
  C9. With \<open>op\<close> the operation type of the call (\<^verbatim>\<open>query\<close> unless one is given),
  \<open>get_field_details\<close> on a fetched document fails with the not-found message
  \<^verbatim>\<open>No op type available\<close> when the schema has no root for \<open>op\<close>; with
  \<^verbatim>\<open>op type has no fields\<close> when it has the root but no field list for it; and with
  \<^verbatim>\<open>Field "name" not found in op type\<close> when the root's field list has no field of
  the requested name. The three messages differ from each other, and no not-found
  failure of the operation carries any other message.
\<close>

theorem getFieldDetails_not_found:
  assumes fetched:
      "fst (fetchIntrospection w svc (resolve_endpoint svc options) options) = Inr doc"
    and present: "\<not> nullish (property doc ''__schema'')"
  shows "(\<not> truthy (property (property doc ''__schema'') (root_key_of (operation_name options)))
            \<longrightarrow> fst (getFieldDetails w svc options) =
                  Inl (Error NotFoundError
                         (''No '' @ operation_name options @ '' type available'')))
       \<and> (truthy (property (property doc ''__schema'') (root_key_of (operation_name options)))
            \<and> lacks_root_fields (root_key_of (operation_name options)) (property doc ''__schema'')
            \<longrightarrow> fst (getFieldDetails w svc options) =
                  Inl (Error NotFoundError
                         (operation_name options @ '' type has no fields'')))
       \<and> (\<forall>fs. root_field_list (root_key_of (operation_name options)) (property doc ''__schema'')
                   = Some fs
                \<and> list_all (\<lambda>f. \<not> nullish f) fs
                \<and> find (\<lambda>f. strict_eq (property f ''name'') (JStr (field_name options))) fs
                   = None
            \<longrightarrow> fst (getFieldDetails w svc options) =
                  Inl (Error NotFoundError
                         (''Field '' @ dquote @ field_name options @ dquote
                            @ '' not found in '' @ operation_name options @ '' type'')))
       \<and> distinct [''No '' @ operation_name options @ '' type available'',
                    operation_name options @ '' type has no fields'',
                    ''Field '' @ dquote @ field_name options @ dquote
                       @ '' not found in '' @ operation_name options @ '' type'']
       \<and> (\<forall>m. fst (getFieldDetails w svc options) = Inl (Error NotFoundError m) \<longrightarrow>
              m \<in> {''No '' @ operation_name options @ '' type available'',
                    operation_name options @ '' type has no fields'',
                    ''Field '' @ dquote @ field_name options @ dquote
                       @ '' not found in '' @ operation_name options @ '' type''})"
proof -
  have run: "fst (getFieldDetails w svc options)
      = getFieldDetails_on (resolve_endpoint svc options) doc options"
    by (simp add: fst_getFieldDetails fetched)
  have a: "\<not> truthy (property (property doc ''__schema'') (root_key_of (operation_name options)))
      \<Longrightarrow> fst (getFieldDetails w svc options) =
            Inl (Error NotFoundError (''No '' @ operation_name options @ '' type available''))"
    using no_root [OF present, of options] by (simp add: run no_root_message_def)
  have b: "truthy (property (property doc ''__schema'') (root_key_of (operation_name options)))
      \<Longrightarrow> lacks_root_fields (root_key_of (operation_name options)) (property doc ''__schema'')
      \<Longrightarrow> fst (getFieldDetails w svc options) =
            Inl (Error NotFoundError (operation_name options @ '' type has no fields''))"
    using no_fields [of doc options] by (simp add: run no_fields_message_def)
  have c: "root_field_list (root_key_of (operation_name options)) (property doc ''__schema'')
                   = Some fs
      \<Longrightarrow> list_all (\<lambda>f. \<not> nullish f) fs
      \<Longrightarrow> find (\<lambda>f. strict_eq (property f ''name'') (JStr (field_name options))) fs = None
      \<Longrightarrow> fst (getFieldDetails w svc options) =
                  Inl (Error NotFoundError
                         (''Field '' @ dquote @ field_name options @ dquote
                            @ '' not found in '' @ operation_name options @ '' type''))" for fs
    using field_not_found [of options doc fs]
    by (simp add: run field_not_found_message_def del: strict_eq_str)
  have d: "distinct [''No '' @ operation_name options @ '' type available'',
                    operation_name options @ '' type has no fields'',
                    ''Field '' @ dquote @ field_name options @ dquote
                       @ '' not found in '' @ operation_name options @ '' type'']"
    using messages_distinct [of "operation_name options" "field_name options"]
    by (simp add: no_root_message_def no_fields_message_def field_not_found_message_def)
  have e: "fst (getFieldDetails w svc options) = Inl (Error NotFoundError m) \<Longrightarrow>
              m \<in> {''No '' @ operation_name options @ '' type available'',
                    operation_name options @ '' type has no fields'',
                    ''Field '' @ dquote @ field_name options @ dquote
                       @ '' not found in '' @ operation_name options @ '' type''}" for m
    using not_found_messages [of "resolve_endpoint svc options" doc options m]
    by (simp add: run no_root_message_def no_fields_message_def field_not_found_message_def)
  from a b c d e show ?thesis by blast
qed

text \<open>A mutation field on the sample schema, which has no mutation root; a query field
  on the schema whose query type has no field list; a query field that the sample schema
  does not have.\<close>

theorem getFieldDetails_not_found_witness:
  "fst (getFieldDetails (serving sample_document) (new_service Map.empty)
          (field_options ''user'' (Some ''mutation'')))
     = Inl (Error NotFoundError ''No mutation type available'')
   \<and> fst (getFieldDetails (serving bare_document) (new_service Map.empty)
          (field_options ''user'' None))
     = Inl (Error NotFoundError ''query type has no fields'')
   \<and> fst (getFieldDetails (serving sample_document) (new_service Map.empty)
          (field_options ''users'' None))
     = Inl (Error NotFoundError
              (''Field '' @ dquote @ ''users'' @ dquote @ '' not found in query type''))"
proof -
  let ?svc = "new_service Map.empty"
  have ep: "endpoint (field_options f t) = Some sample_endpoint" for f t
    by (simp add: field_options_def)
  have p1: "\<not> nullish (property sample_document ''__schema'')"
    by (simp add: sample_document_def sample_schema_def nullish_def)
  have p2: "\<not> nullish (property bare_document ''__schema'')"
    by (simp add: bare_document_def nullish_def)
  have h1: "\<not> truthy (property (property sample_document ''__schema'')
       (root_key_of (operation_name (field_options ''user'' (Some ''mutation'')))))"
    by (simp add: sample_document_def sample_schema_def root_key_of_def operation_name_def
          field_options_def)
  have h2: "truthy (property (property bare_document ''__schema'')
       (root_key_of (operation_name (field_options ''user'' None))))
     \<and> lacks_root_fields (root_key_of (operation_name (field_options ''user'' None)))
         (property bare_document ''__schema'')"
    by (simp add: bare_document_def root_key_of_def operation_name_def field_options_def
          lacks_root_fields_def found_type_def nullish_def)
  have h3: "root_field_list (root_key_of (operation_name (field_options ''users'' None)))
        (property sample_document ''__schema'')
      = Some [JObj [(''name'', JStr ''user''),
                         (''description'', JStr ''Find a User''),
                         (''args'', JArr []),
                         (''type'', JObj [(''kind'', JStr ''OBJECT''),
                                          (''name'', JStr ''User''), (''ofType'', JNull)]),
                         (''isDeprecated'', JBool False),
                         (''deprecationReason'', JNull)]]"
    by (simp add: sample_document_def sample_schema_def root_key_of_def operation_name_def
          field_options_def root_field_list_def found_type_def nullish_def)
  from getFieldDetails_not_found [OF serving_fetches [OF ep] p1,
         of "''user''" "Some ''mutation''"] h1
  have m1: "fst (getFieldDetails (serving sample_document) ?svc
          (field_options ''user'' (Some ''mutation'')))
     = Inl (Error NotFoundError ''No mutation type available'')"
    by (simp add: operation_name_def field_options_def)
  from getFieldDetails_not_found [OF serving_fetches [OF ep] p2, of "''user''" None] h2
  have m2: "fst (getFieldDetails (serving bare_document) ?svc (field_options ''user'' None))
     = Inl (Error NotFoundError ''query type has no fields'')"
    by (simp add: operation_name_def field_options_def)
  from getFieldDetails_not_found [OF serving_fetches [OF ep] p1, of "''users''" None] h3
  have m3: "fst (getFieldDetails (serving sample_document) ?svc (field_options ''users'' None))
     = Inl (Error NotFoundError
              (''Field '' @ dquote @ ''users'' @ dquote @ '' not found in query type''))"
    by (simp add: operation_name_def field_options_def nullish_def)
  from m1 m2 m3 show ?thesis by simp
qed

end
